theory Spec2Isabelle
  imports Main "HOL-Library.Word"
begin

section \<open>Data model of \<^verbatim>\<open>pkg.c\<close> and \<^verbatim>\<open>parse.c\<close>\<close>

text \<open>
  The header \<^verbatim>\<open>pkg.h\<close> is not among the sources, so the types below are read off
  the uses in \<^verbatim>\<open>pkg.c\<close> and \<^verbatim>\<open>parse.c\<close>.  A \<^verbatim>\<open>char *\<close> that the code tests
  against \<^verbatim>\<open>NULL\<close> is a \<open>string option\<close>; a C string is the list of its bytes
  before the terminating NUL.
\<close>

datatype ComparisonType =
  LESS_THAN | GREATER_THAN | LESS_THAN_EQUAL | GREATER_THAN_EQUAL
  | EQUAL | NOT_EQUAL | ALWAYS_MATCH

text \<open>
  \<^verbatim>\<open>RequiredVersion\<close>: the \<^verbatim>\<open>owner\<close> pointer is only read to print the owner in a
  diagnostic; it is kept as the key of the owning package.
\<close>

record RequiredVersion =
  rv_name :: "string option"
  rv_comparison :: ComparisonType
  rv_version :: "string option"
  rv_owner :: "string option"

datatype FlagType = LIBS_l | LIBS_L | LIBS_OTHER | CFLAGS_I | CFLAGS_OTHER

record Flag =
  flag_type :: FlagType
  arg :: string

text \<open>
  Every field of \<^verbatim>\<open>struct _Package\<close> that one of the two files reads or writes,
  except the resolved \<^verbatim>\<open>requires\<close> list, which makes the structure recursive and
  is therefore the second argument of the datatype \<open>Package\<close> below.
\<close>

record Package_fields =
  key :: "string option"
  name :: "string option"
  version :: "string option"
  description :: "string option"
  url :: "string option"
  pcfiledir :: "string option"
  requires_entries :: "RequiredVersion list"
  requires_private_entries :: "RequiredVersion list"
  conflicts :: "RequiredVersion list"
  required_versions :: "(string \<rightharpoonup> RequiredVersion) option"
  l_libs :: "string list"
  L_libs :: "string list"
  other_libs :: "string option"
  I_cflags :: "string list"
  other_cflags :: "string option"
  l_libs_merged :: "string option"
  L_libs_merged :: "string option"
  I_cflags_merged :: "string option"
  libs :: "Flag list"
  libs_private :: "Flag list"
  cflags :: "Flag list"
  vars :: "(string \<rightharpoonup> string) option"
  orig_prefix :: "string option"
  uninstalled :: bool

datatype Package = Package (fields_of: Package_fields) (requires: "Package list")

text \<open>\<^verbatim>\<open>g_new0 (Package, 1)\<close>: every pointer \<^verbatim>\<open>NULL\<close>, every list empty.\<close>

definition new0_fields :: Package_fields where
  "new0_fields =
     \<lparr> key = None, name = None, version = None, description = None, url = None,
       pcfiledir = None, requires_entries = [], requires_private_entries = [],
       conflicts = [], required_versions = None, l_libs = [], L_libs = [],
       other_libs = None, I_cflags = [], other_cflags = None, l_libs_merged = None,
       L_libs_merged = None, I_cflags_merged = None, libs = [], libs_private = [],
       cflags = [], vars = None, orig_prefix = None, uninstalled = False \<rparr>"

section \<open>Merging flag lists (\<^verbatim>\<open>pkg.c\<close>)\<close>

text \<open>
  Both de-duplication loops keep a hash table of the strings seen so far (each string is
  inserted as its own value, so a lookup is \<^verbatim>\<open>NULL\<close> exactly for an unseen string) and
  prepend every unseen string to \<^verbatim>\<open>nodups\<close>.
\<close>

fun strip_loop :: "string list \<Rightarrow> (string \<rightharpoonup> string) \<Rightarrow> string list \<Rightarrow> string list" where
  "strip_loop [] table nodups = nodups"
| "strip_loop (d # tmp) table nodups =
     (if table d = None then strip_loop tmp (table(d \<mapsto> d)) (d # nodups)
      else strip_loop tmp table nodups)"

definition string_list_strip_duplicates :: "string list \<Rightarrow> string list" where
  "string_list_strip_duplicates list = rev (strip_loop list Map.empty [])"

definition string_list_strip_duplicates_from_back :: "string list \<Rightarrow> string list" where
  "string_list_strip_duplicates_from_back list = strip_loop (rev list) Map.empty []"

text \<open>\<^verbatim>\<open>string_list_to_string\<close>: the \<^verbatim>\<open>GString\<close> grows by the element and one blank.\<close>

fun to_string_loop :: "string list \<Rightarrow> string \<Rightarrow> string" where
  "to_string_loop [] str = str"
| "to_string_loop (d # tmp) str = to_string_loop tmp ((str @ d) @ [CHR '' ''])"

definition string_list_to_string :: "string list \<Rightarrow> string" where
  "string_list_to_string list = to_string_loop list []"

definition get_l_libs :: "Package \<Rightarrow> string list" where
  "get_l_libs pkg = l_libs (fields_of pkg)"

definition get_L_libs :: "Package \<Rightarrow> string list" where
  "get_L_libs pkg = L_libs (fields_of pkg)"

definition get_I_cflags :: "Package \<Rightarrow> string list" where
  "get_I_cflags pkg = I_cflags (fields_of pkg)"

definition get_conflicts :: "Package \<Rightarrow> RequiredVersion list" where
  "get_conflicts pkg = conflicts (fields_of pkg)"

definition get_requires :: "Package \<Rightarrow> Package list" where
  "get_requires pkg = requires pkg"

text \<open>
  \<^verbatim>\<open>recursive_fill_list\<close>: the package's own list is appended to \<^verbatim>\<open>*listp\<close>, then
  the packages of \<^verbatim>\<open>pkg->requires\<close> are walked in order.  There is no visited set; a
  value of the datatype is a finite tree, which is the acyclic case the code expects.
\<close>

fun recursive_fill_list :: "Package \<Rightarrow> (Package \<Rightarrow> 'a list) \<Rightarrow> 'a list \<Rightarrow> 'a list" where
  "recursive_fill_list (Package f reqs) func listp =
     fold (\<lambda>p l. recursive_fill_list p func l) reqs (listp @ func (Package f reqs))"

definition get_merged :: "Package \<Rightarrow> (Package \<Rightarrow> string list) \<Rightarrow> string" where
  "get_merged pkg func =
     string_list_to_string (string_list_strip_duplicates (recursive_fill_list pkg func []))"

definition get_merged_from_back :: "Package \<Rightarrow> (Package \<Rightarrow> string list) \<Rightarrow> string" where
  "get_merged_from_back pkg func =
     string_list_to_string
       (string_list_strip_duplicates_from_back (recursive_fill_list pkg func []))"

definition get_multi_merged :: "Package list \<Rightarrow> (Package \<Rightarrow> string list) \<Rightarrow> string" where
  "get_multi_merged pkgs func =
     string_list_to_string
       (string_list_strip_duplicates (fold (\<lambda>p l. recursive_fill_list p func l) pkgs []))"

definition get_multi_merged_from_back ::
    "Package list \<Rightarrow> (Package \<Rightarrow> string list) \<Rightarrow> string" where
  "get_multi_merged_from_back pkgs func =
     string_list_to_string
       (string_list_strip_duplicates_from_back
          (fold (\<lambda>p l. recursive_fill_list p func l) pkgs []))"

text \<open>The public accessors; the single-package ones fill a compute-once cache.\<close>

definition package_get_l_libs :: "Package \<Rightarrow> string \<times> Package" where
  "package_get_l_libs pkg =
     (case l_libs_merged (fields_of pkg) of
        Some s \<Rightarrow> (s, pkg)
      | None \<Rightarrow>
          (let s = get_merged_from_back pkg get_l_libs
           in (s, Package ((fields_of pkg)\<lparr>l_libs_merged := Some s\<rparr>) (requires pkg))))"

definition packages_get_l_libs :: "Package list \<Rightarrow> string" where
  "packages_get_l_libs pkgs = get_multi_merged_from_back pkgs get_l_libs"

definition package_get_L_libs :: "Package \<Rightarrow> string \<times> Package" where
  "package_get_L_libs pkg =
     (case L_libs_merged (fields_of pkg) of
        Some s \<Rightarrow> (s, pkg)
      | None \<Rightarrow>
          (let s = get_merged pkg get_L_libs
           in (s, Package ((fields_of pkg)\<lparr>L_libs_merged := Some s\<rparr>) (requires pkg))))"

definition packages_get_L_libs :: "Package list \<Rightarrow> string" where
  "packages_get_L_libs pkgs = get_multi_merged pkgs get_L_libs"

definition package_get_I_cflags :: "Package \<Rightarrow> string \<times> Package" where
  "package_get_I_cflags pkg =
     (case I_cflags_merged (fields_of pkg) of
        Some s \<Rightarrow> (s, pkg)
      | None \<Rightarrow>
          (let s = get_merged pkg get_I_cflags
           in (s, Package ((fields_of pkg)\<lparr>I_cflags_merged := Some s\<rparr>) (requires pkg))))"

definition packages_get_I_cflags :: "Package list \<Rightarrow> string" where
  "packages_get_I_cflags pkgs = get_multi_merged pkgs get_I_cflags"

section \<open>Characters and strings of the C library\<close>

text \<open>
  The \<^verbatim>\<open><ctype.h>\<close> predicates in the C locale, on the byte value of the character.
\<close>

definition isdigit :: "char \<Rightarrow> bool" where
  "isdigit c = (48 \<le> (of_char c :: nat) \<and> (of_char c :: nat) \<le> 57)"

definition isalpha :: "char \<Rightarrow> bool" where
  "isalpha c =
     ((65 \<le> (of_char c :: nat) \<and> (of_char c :: nat) \<le> 90) \<or>
      (97 \<le> (of_char c :: nat) \<and> (of_char c :: nat) \<le> 122))"

definition isalnum :: "char \<Rightarrow> bool" where
  "isalnum c = (isalpha c \<or> isdigit c)"

definition isspace :: "char \<Rightarrow> bool" where
  "isspace c =
     ((of_char c :: nat) = 32 \<or> (9 \<le> (of_char c :: nat) \<and> (of_char c :: nat) \<le> 13))"

text \<open>
  \<^verbatim>\<open>strcmp\<close> compares bytes as \<^verbatim>\<open>unsigned char\<close>.  ISO C fixes only the sign of the
  result; the model returns \<open>-1\<close>, \<open>0\<close> or \<open>1\<close>.
\<close>

fun strcmp :: "string \<Rightarrow> string \<Rightarrow> int" where
  "strcmp [] [] = 0"
| "strcmp [] (b # t) = - 1"
| "strcmp (a # s) [] = 1"
| "strcmp (a # s) (b # t) =
     (if a = b then strcmp s t
      else if (of_char a :: nat) < of_char b then - 1 else 1)"

section \<open>Version comparison (\<^verbatim>\<open>pkg.c\<close>)\<close>

text \<open>
  \<^verbatim>\<open>rpmvercmp\<close>.  The pointers \<^verbatim>\<open>one\<close> and \<^verbatim>\<open>two\<close> are the unread rests of the
  two copies.  One round of the \<^verbatim>\<open>while\<close> loop skips the separators, cuts a digit
  segment (when \<^verbatim>\<open>*one\<close> is a digit) or a letter segment off both rests, returns
  \<open>-1\<close> when either segment is empty, and otherwise compares the segments.
\<close>

definition starts_with_digit :: "string \<Rightarrow> bool" where
  "starts_with_digit s = (case s of [] \<Rightarrow> False | c # _ \<Rightarrow> isdigit c)"

function rpmvercmp_loop :: "string \<Rightarrow> string \<Rightarrow> int" where
  "rpmvercmp_loop one two =
     (if one \<noteq> [] \<and> two \<noteq> [] then
        (let one1 = dropWhile (\<lambda>c. \<not> isalnum c) one;
             two1 = dropWhile (\<lambda>c. \<not> isalnum c) two;
             isnum = starts_with_digit one1;
             cls = (if isnum then isdigit else isalpha);
             str1 = dropWhile cls one1;
             str2 = dropWhile cls two1;
             seg1 = takeWhile cls one1;
             seg2 = takeWhile cls two1
         in if seg1 = [] then - 1
            else if seg2 = [] then - 1
            else
              (let num1 = (if isnum then dropWhile (\<lambda>c. c = CHR ''0'') seg1 else seg1);
                   num2 = (if isnum then dropWhile (\<lambda>c. c = CHR ''0'') seg2 else seg2)
               in if isnum \<and> length num1 > length num2 then 1
                  else if isnum \<and> length num2 > length num1 then - 1
                  else
                    (let rc = strcmp num1 num2
                     in if rc \<noteq> 0 then rc else rpmvercmp_loop str1 str2)))
      else if one = [] \<and> two = [] then 0
      else if one = [] then - 1
      else 1)"
  by pat_completeness auto
termination
proof (relation "measure (\<lambda>(one, two). length one)")
  show "wf (measure (\<lambda>(one, two). length one))"
    by simp
next
  fix one two :: string and one1 two1 isnum cls str1 str2 seg1 seg2
  assume one1: "one1 = dropWhile (\<lambda>c. \<not> isalnum c) one"
    and str1: "str1 = dropWhile cls one1"
    and seg1: "seg1 = takeWhile cls one1"
    and nonempty: "seg1 \<noteq> []"
  from seg1 nonempty obtain c rest where "one1 = c # rest" "cls c"
    by (cases one1) (auto split: if_splits)
  then have "length str1 < length one1"
    using str1 length_dropWhile_le [of cls rest] by simp
  also have "length one1 \<le> length one"
    unfolding one1 by (rule length_dropWhile_le)
  finally show "((str1, str2), (one, two)) \<in> measure (\<lambda>(one, two). length one)"
    by simp
qed

definition rpmvercmp :: "string \<Rightarrow> string \<Rightarrow> int" where
  "rpmvercmp a b = (if strcmp a b = 0 then 0 else rpmvercmp_loop a b)"

definition compare_versions :: "string \<Rightarrow> string \<Rightarrow> int" where
  "compare_versions a b = rpmvercmp a b"

text \<open>
  For the statement about the sign of the comparison: the way the walk over two strings
  ends.  As long as both rests are non-empty the separators are skipped on both sides.
  \<open>Rest_empty\<close>: one of the two rests held separators only, so there is no segment left on
  that side.  \<open>Type_mismatch\<close>: both sides have a segment, one numeric and one
  alphabetic.  Otherwise the two segments have the same type; when they compare equal
  (numeric ones after the leading zeros are dropped) the walk goes on behind them, and
  it is \<open>Decided\<close> when they differ or when a string is used up behind a segment.
\<close>

datatype walk_end = Decided | Type_mismatch | Rest_empty

function rpmvercmp_end :: "string \<Rightarrow> string \<Rightarrow> walk_end" where
  "rpmvercmp_end one two =
     (if one \<noteq> [] \<and> two \<noteq> [] then
        (let one1 = dropWhile (\<lambda>c. \<not> isalnum c) one;
             two1 = dropWhile (\<lambda>c. \<not> isalnum c) two
         in if one1 = [] \<or> two1 = [] then Rest_empty
            else if starts_with_digit one1 \<noteq> starts_with_digit two1 then Type_mismatch
            else
              (let isnum = starts_with_digit one1;
                   cls = (if isnum then isdigit else isalpha);
                   seg1 = takeWhile cls one1;
                   seg2 = takeWhile cls two1;
                   num1 = (if isnum then dropWhile (\<lambda>c. c = CHR ''0'') seg1 else seg1);
                   num2 = (if isnum then dropWhile (\<lambda>c. c = CHR ''0'') seg2 else seg2)
               in if (isnum \<and> length num1 \<noteq> length num2) \<or> strcmp num1 num2 \<noteq> 0
                  then Decided
                  else rpmvercmp_end (dropWhile cls one1) (dropWhile cls two1)))
      else Decided)"
  by pat_completeness auto
termination
proof (relation "measure (\<lambda>(one, two). length one)")
  show "wf (measure (\<lambda>(one, two). length one))"
    by simp
next
  fix one two one1 two1 :: string and isnum cls
  assume one1: "one1 = dropWhile (\<lambda>c. \<not> isalnum c) one"
    and ne: "\<not> (one1 = [] \<or> two1 = [])"
    and isnum: "isnum = starts_with_digit one1"
    and cls: "cls = (if isnum then isdigit else isalpha)"
  from ne obtain c rest where split: "one1 = c # rest"
    by (cases one1) auto
  have "dropWhile (\<lambda>c. \<not> isalnum c) one = c # rest"
    using one1 split by simp
  then have "isalnum c"
    by (simp add: dropWhile_eq_Cons_conv)
  then have "cls c"
    using split isnum cls by (auto simp: starts_with_digit_def isalnum_def)
  then have "length (dropWhile cls one1) < length one1"
    using split length_dropWhile_le [of cls rest] by simp
  also have "length one1 \<le> length one"
    unfolding one1 by (rule length_dropWhile_le)
  finally show "((dropWhile cls one1, dropWhile cls two1), (one, two))
                \<in> measure (\<lambda>(one, two). length one)"
    by simp
qed

text \<open>
  What the process prints through \<^verbatim>\<open>verbose_error\<close> (or \<^verbatim>\<open>fprintf (stderr, ...)\<close>),
  with the arguments of the format string, and the two ways the C code dies without a
  message of its own.  A function that can call \<^verbatim>\<open>exit (1)\<close> returns a sum: \<open>Inl d\<close>
  is the process ending after printing \<open>d\<close>.
\<close>

datatype diag =
    Internal_no_key
  | No_Name_field "string option"
  | No_Version_field "string option"
  | No_Description_field "string option"
  | Requires_but_version_is "string option" "string option" ComparisonType "string option"
      "string option" "string option"
  | Creates_conflict "string option" "string option" "string option" ComparisonType
      "string option" "string option"
  | Package_not_found string
  | Failed_to_open string
  | Field_occurs_twice string string
  | Unknown_comparison_operator string string string
  | Operator_but_no_version string string
  | Variable_not_defined string string
  | Duplicate_variable string string
  | Cannot_parse_argv string
  | File_appears_empty string
  | Null_dereference
  | Read_past_end
  | Assertion_failed
  | Out_of_bounds_write int

text \<open>
  \<^verbatim>\<open>version_test\<close>.  \<^verbatim>\<open>ALWAYS_MATCH\<close> does not look at the strings; every other
  comparison passes both pointers to \<^verbatim>\<open>strcmp\<close>.
\<close>

fun version_test :: "ComparisonType \<Rightarrow> string option \<Rightarrow> string option \<Rightarrow> diag + bool" where
  "version_test ALWAYS_MATCH a b = Inr True"
| "version_test LESS_THAN (Some a) (Some b) = Inr (compare_versions a b < 0)"
| "version_test GREATER_THAN (Some a) (Some b) = Inr (compare_versions a b > 0)"
| "version_test LESS_THAN_EQUAL (Some a) (Some b) = Inr (compare_versions a b \<le> 0)"
| "version_test GREATER_THAN_EQUAL (Some a) (Some b) = Inr (compare_versions a b \<ge> 0)"
| "version_test EQUAL (Some a) (Some b) = Inr (compare_versions a b = 0)"
| "version_test NOT_EQUAL (Some a) (Some b) = Inr (compare_versions a b \<noteq> 0)"
| "version_test c a b = Inl Null_dereference"

section \<open>Verifying a loaded package (\<^verbatim>\<open>pkg.c\<close>)\<close>

text \<open>The first loop of \<^verbatim>\<open>verify_package\<close>: the declared version of every requirement.\<close>

fun verify_requires :: "Package_fields \<Rightarrow> Package list \<Rightarrow> diag + unit" where
  "verify_requires pf [] = Inr ()"
| "verify_requires pf (req # iter) =
     (case (case required_versions pf of
              None \<Rightarrow> Inr None
            | Some tab \<Rightarrow>
                (case key (fields_of req) of
                   None \<Rightarrow> Inl Null_dereference
                 | Some k \<Rightarrow> Inr (tab k))) of
        Inl e \<Rightarrow> Inl e
      | Inr None \<Rightarrow> verify_requires pf iter
      | Inr (Some ver) \<Rightarrow>
          (case version_test (rv_comparison ver) (version (fields_of req)) (rv_version ver) of
             Inl e \<Rightarrow> Inl e
           | Inr True \<Rightarrow> verify_requires pf iter
           | Inr False \<Rightarrow>
               Inl (Requires_but_version_is (name pf) (key (fields_of req)) (rv_comparison ver)
                      (rv_version ver) (name (fields_of req)) (version (fields_of req)))))"

text \<open>
  The nested loops over the two transitive lists: the inner one tries one required
  package against every conflict entry.
\<close>

fun conflicts_loop :: "Package \<Rightarrow> RequiredVersion list \<Rightarrow> diag + unit" where
  "conflicts_loop req [] = Inr ()"
| "conflicts_loop req (ver # conflicts_iter) =
     (case version_test (rv_comparison ver) (version (fields_of req)) (rv_version ver) of
        Inl e \<Rightarrow> Inl e
      | Inr True \<Rightarrow>
          Inl (Creates_conflict (version (fields_of req)) (name (fields_of req)) (rv_name ver)
                 (rv_comparison ver) (rv_version ver) (rv_owner ver))
      | Inr False \<Rightarrow> conflicts_loop req conflicts_iter)"

fun requires_loop :: "Package list \<Rightarrow> RequiredVersion list \<Rightarrow> diag + unit" where
  "requires_loop [] cfl = Inr ()"
| "requires_loop (req # requires_iter) cfl =
     (case conflicts_loop req cfl of
        Inl e \<Rightarrow> Inl e
      | Inr u \<Rightarrow> requires_loop requires_iter cfl)"

definition verify_package :: "Package \<Rightarrow> diag + unit" where
  "verify_package pkg =
     (if key (fields_of pkg) = None then Inl Internal_no_key
      else if name (fields_of pkg) = None then Inl (No_Name_field (key (fields_of pkg)))
      else if version (fields_of pkg) = None then Inl (No_Version_field (name (fields_of pkg)))
      else if description (fields_of pkg) = None
        then Inl (No_Description_field (description (fields_of pkg)))
      else
        (case verify_requires (fields_of pkg) (requires pkg) of
           Inl e \<Rightarrow> Inl e
         | Inr u \<Rightarrow>
             requires_loop (recursive_fill_list pkg get_requires [])
               (recursive_fill_list pkg get_conflicts [])))"

section \<open>Variables (\<^verbatim>\<open>pkg.c\<close>)\<close>

text \<open>
  \<^verbatim>\<open>package_get_var\<close>: the global table (when there is one) first, then the package's
  own table, then the magic \<^verbatim>\<open>pcfiledir\<close>.
\<close>

definition package_get_var ::
    "(string \<rightharpoonup> string) option \<Rightarrow> Package_fields \<Rightarrow> string \<Rightarrow> string option" where
  "package_get_var globals pf var =
     (let varval1 = (case globals of None \<Rightarrow> None | Some g \<Rightarrow> g var);
          varval2 =
            (case (varval1, vars pf) of (None, Some tab) \<Rightarrow> tab var | _ \<Rightarrow> varval1)
      in if varval2 = None \<and> pcfiledir pf \<noteq> None \<and> var = ''pcfiledir''
         then pcfiledir pf else varval2)"

fun get_var_loop ::
    "(string \<rightharpoonup> string) option \<Rightarrow> Package list \<Rightarrow> string \<Rightarrow> string \<Rightarrow> string" where
  "get_var_loop globals [] varname str = str"
| "get_var_loop globals (pkg # tmp) varname str =
     (case package_get_var globals (fields_of pkg) varname of
        Some var \<Rightarrow> get_var_loop globals tmp varname ((str @ var) @ [CHR '' ''])
      | None \<Rightarrow> get_var_loop globals tmp varname str)"

text \<open>
  The chop \<^verbatim>\<open>str->str[str->len - 1] = '\0'\<close>.  \<^verbatim>\<open>len\<close> is a \<^verbatim>\<open>gsize\<close>, an unsigned
  64-bit integer, so the index wraps at zero.  The buffer of a \<^verbatim>\<open>GString\<close> owns the
  bytes \<open>0 .. len\<close> (the last one holds the terminator); a write at any other index is
  the error \<open>Out_of_bounds_write\<close>.  After a write in bounds the C string that is
  returned ends at the new NUL.
\<close>

definition chop_last_space :: "string \<Rightarrow> diag + string" where
  "chop_last_space str =
     (let idx = (word_of_nat (length str) :: 64 word) - 1
      in if unat idx \<le> length str then Inr (take (unat idx) str)
         else Inl (Out_of_bounds_write (uint idx)))"

definition packages_get_var ::
    "(string \<rightharpoonup> string) option \<Rightarrow> Package list \<Rightarrow> string \<Rightarrow> diag + string" where
  "packages_get_var globals pkgs varname =
     chop_last_space (get_var_loop globals pkgs varname [])"

section \<open>The registry: search path, locations, loaded packages (\<^verbatim>\<open>pkg.c\<close>)\<close>

text \<open>
  The static variables of \<^verbatim>\<open>pkg.c\<close>, the flag \<^verbatim>\<open>initted\<close> of \<^verbatim>\<open>package_init\<close>, and
  the non-fatal output of \<^verbatim>\<open>verbose_error\<close> in the order printed.
\<close>

record registry =
  packages :: "string \<rightharpoonup> Package"
  locations :: "string \<rightharpoonup> string"
  search_dirs :: "string list"
  initted :: bool
  disable_uninstalled :: bool
  printed :: "diag list"

definition add_search_dir :: "string \<Rightarrow> registry \<Rightarrow> registry" where
  "add_search_dir path st = st\<lparr>search_dirs := path # search_dirs st\<rparr>"

definition ends_in_dotpc :: "string \<Rightarrow> bool" where
  "ends_in_dotpc str =
     (let len = length str
      in len > 3 \<and> str ! (len - 3) = CHR ''.'' \<and> str ! (len - 2) = CHR ''p''
         \<and> str ! (len - 1) = CHR ''c'')"

definition name_ends_in_uninstalled :: "string \<Rightarrow> bool" where
  "name_ends_in_uninstalled str =
     (let len = length str in len > 11 \<and> drop (len - 11) str = ''uninstalled'')"

text \<open>
  \<^verbatim>\<open>scan_dir\<close>.  The directory is seen through \<open>entries\<close>: the names \<^verbatim>\<open>readdir\<close>
  returns for a directory, or \<open>None\<close> when \<^verbatim>\<open>opendir\<close> fails.  \<open>scan_entries\<close> is
  the \<^verbatim>\<open>while\<close> loop over the names.
\<close>

fun scan_entries ::
    "string \<Rightarrow> nat \<Rightarrow> string list \<Rightarrow> (string \<rightharpoonup> string) \<Rightarrow> (string \<rightharpoonup> string)" where
  "scan_entries dirname dirnamelen [] locs = locs"
| "scan_entries dirname dirnamelen (d_name # rest) locs =
     (let len = length d_name
      in if ends_in_dotpc d_name then
           (let pkgname = take (len - 3) d_name
            in if locs pkgname \<noteq> None then scan_entries dirname dirnamelen rest locs
               else
                 (let filename = (take dirnamelen dirname @ [CHR ''/'']) @ d_name
                  in scan_entries dirname dirnamelen rest (locs(pkgname \<mapsto> filename))))
         else scan_entries dirname dirnamelen rest locs)"

definition scan_dir ::
    "(string \<Rightarrow> string list option) \<Rightarrow> string \<Rightarrow> (string \<rightharpoonup> string) \<Rightarrow> (string \<rightharpoonup> string)" where
  "scan_dir entries dirname locs =
     (let dirnamelen =
            (if length dirname > 0 \<and> dirname ! (length dirname - 1) = CHR ''/''
             then length dirname - 1 else length dirname)
      in case entries dirname of
           None \<Rightarrow> locs
         | Some names \<Rightarrow> scan_entries dirname dirnamelen names locs)"

text \<open>
  \<^verbatim>\<open>package_init\<close>: the directories of \<^verbatim>\<open>search_dirs\<close> from the head of the list on,
  then the compiled-in \<^verbatim>\<open>PKGLIBDIR\<close> (a macro of the build, here a parameter).
\<close>

definition package_init ::
    "(string \<Rightarrow> string list option) \<Rightarrow> string \<Rightarrow> registry \<Rightarrow> registry" where
  "package_init entries PKGLIBDIR st =
     (if \<not> initted st then
        st\<lparr>initted := True, packages := Map.empty,
           locations := scan_dir entries PKGLIBDIR
                          (fold (scan_dir entries) (search_dirs st) Map.empty)\<rparr>
      else st)"

definition file_readable :: "(string \<Rightarrow> bool) \<Rightarrow> string \<Rightarrow> bool" where
  "file_readable can_open path = can_open path"

text \<open>
  \<^verbatim>\<open>pkg.c\<close> calls \<^verbatim>\<open>parse_package_file (location)\<close>.  Its first step is the one of
  \<^verbatim>\<open>parse.c\<close>: when \<^verbatim>\<open>fopen\<close> fails, print and return \<^verbatim>\<open>NULL\<close>.  What it does with
  an opened file (read the lines, load the packages named by \<^verbatim>\<open>Requires\<close>) is the
  parameter \<open>parse_opened\<close>, as is \<^verbatim>\<open>get_compat_package\<close> of the legacy module.
\<close>

definition parse_package_file_at ::
    "(string \<Rightarrow> bool) \<Rightarrow> (string \<Rightarrow> registry \<Rightarrow> diag + Package option \<times> registry) \<Rightarrow>
     string \<Rightarrow> registry \<Rightarrow> diag + Package option \<times> registry" where
  "parse_package_file_at can_open parse_opened path st =
     (if \<not> can_open path then Inr (None, st\<lparr>printed := printed st @ [Failed_to_open path]\<rparr>)
      else parse_opened path st)"

fun strstr :: "string \<Rightarrow> string \<Rightarrow> bool" where
  "strstr [] needle = (needle = [])"
| "strstr (c # s) needle = (take (length needle) (c # s) = needle \<or> strstr s needle)"

text \<open>
  The backward walk from \<^verbatim>\<open>end\<close> that looks for the last directory separator:
  the result is the index where \<^verbatim>\<open>start\<close> stops.
\<close>

fun key_start :: "string \<Rightarrow> nat \<Rightarrow> nat" where
  "key_start nm 0 = 0"
| "key_start nm (Suc i) = (if nm ! Suc i = CHR ''/'' then Suc i else key_start nm i)"

text \<open>
  The part of \<^verbatim>\<open>internal_get_package\<close> below the choice of \<^verbatim>\<open>location\<close>.  The
  pointer test \<^verbatim>\<open>location != name\<close> is the flag \<open>is_name\<close>: the two pointers are
  equal exactly when the location was taken from the name.
\<close>

definition load_location ::
    "(string \<Rightarrow> bool) \<Rightarrow> (string \<Rightarrow> registry \<Rightarrow> diag + Package option \<times> registry) \<Rightarrow>
     (string \<Rightarrow> Package option) \<Rightarrow> string \<Rightarrow> string option \<Rightarrow> bool \<Rightarrow> bool \<Rightarrow> bool \<Rightarrow>
     registry \<Rightarrow> diag + Package option \<times> registry" where
  "load_location can_open parse_opened get_compat_package nm location is_name warn
       check_compat st =
     (case (if location = None \<and> check_compat then get_compat_package nm else None) of
        Some pkg \<Rightarrow> Inr (Some pkg, st)
      | None \<Rightarrow>
          (case location of
             None \<Rightarrow>
               Inr (None,
                    if warn then st\<lparr>printed := printed st @ [Package_not_found nm]\<rparr> else st)
           | Some loc \<Rightarrow>
               (case parse_package_file_at can_open parse_opened loc st of
                  Inl e \<Rightarrow> Inl e
                | Inr (None, st1) \<Rightarrow> Inr (None, st1)
                | Inr (Some parsed, st1) \<Rightarrow>
                    (let f1 = (if strstr loc ''uninstalled.pc''
                               then (fields_of parsed)\<lparr>uninstalled := True\<rparr> else fields_of parsed);
                         k = (if \<not> is_name then nm
                              else
                                (let e = length nm - 3; b = key_start nm e
                                 in take (e - b) (drop b nm)));
                         pkg = Package (f1\<lparr>key := Some k\<rparr>) (requires parsed)
                     in case verify_package pkg of
                          Inl e \<Rightarrow> Inl e
                        | Inr u \<Rightarrow> Inr (Some pkg, st1\<lparr>packages := (packages st1)(k \<mapsto> pkg)\<rparr>)))))"

function internal_get_package ::
    "(string \<Rightarrow> bool) \<Rightarrow> (string \<Rightarrow> registry \<Rightarrow> diag + Package option \<times> registry) \<Rightarrow>
     (string \<Rightarrow> Package option) \<Rightarrow> string \<Rightarrow> bool \<Rightarrow> bool \<Rightarrow>
     registry \<Rightarrow> diag + Package option \<times> registry" where
  "internal_get_package can_open parse_opened get_compat_package nm warn check_compat st =
     (case packages st nm of
        Some pkg \<Rightarrow> Inr (Some pkg, st)
      | None \<Rightarrow>
          if ends_in_dotpc nm then
            load_location can_open parse_opened get_compat_package nm (Some nm) True warn
              check_compat st
          else if \<not> disable_uninstalled st \<and> \<not> name_ends_in_uninstalled nm then
            (case internal_get_package can_open parse_opened get_compat_package
                    (nm @ ''-uninstalled'') False False st of
               Inl e \<Rightarrow> Inl e
             | Inr (Some pkg, st1) \<Rightarrow> Inr (Some pkg, st1)
             | Inr (None, st1) \<Rightarrow>
                 load_location can_open parse_opened get_compat_package nm (locations st1 nm)
                   False warn check_compat st1)
          else
            load_location can_open parse_opened get_compat_package nm (locations st nm)
              False warn check_compat st)"
  by pat_completeness auto
termination
proof (relation
    "measure (\<lambda>(a, b, c, nm, w, k, st). if name_ends_in_uninstalled nm then 0 else 1)")
  show "wf (measure (\<lambda>(a :: string \<Rightarrow> bool,
                       b :: string \<Rightarrow> registry \<Rightarrow> diag + Package option \<times> registry,
                       c :: string \<Rightarrow> Package option, nm, w :: bool, k :: bool,
                       st :: registry). if name_ends_in_uninstalled nm then 0 else 1))"
    by simp
next
  fix can_open parse_opened get_compat_package and nm :: string and warn check_compat :: bool
    and st :: registry
  assume "\<not> disable_uninstalled st \<and> \<not> name_ends_in_uninstalled nm"
  moreover have "name_ends_in_uninstalled (nm @ ''-uninstalled'')"
    by (simp add: name_ends_in_uninstalled_def)
  ultimately show
    "((can_open, parse_opened, get_compat_package, nm @ ''-uninstalled'', False, False, st),
      (can_open, parse_opened, get_compat_package, nm, warn, check_compat, st))
     \<in> measure (\<lambda>(a, b, c, nm, w, k, st). if name_ends_in_uninstalled nm then 0 else 1)"
    by simp
qed

definition get_package ::
    "(string \<Rightarrow> bool) \<Rightarrow> (string \<Rightarrow> registry \<Rightarrow> diag + Package option \<times> registry) \<Rightarrow>
     (string \<Rightarrow> Package option) \<Rightarrow> string \<Rightarrow> registry \<Rightarrow> diag + Package option \<times> registry" where
  "get_package can_open parse_opened get_compat_package nm st =
     internal_get_package can_open parse_opened get_compat_package nm True True st"

text \<open>
  For the first-wins property of the scan: the statement "directory \<open>d\<close> contains the
  file \<open>K.pc\<close>" (a name of more than three bytes, as \<^verbatim>\<open>ends_in_dotpc\<close> demands), and
  the path of that file, the directory name without one trailing slash.
\<close>

definition has_pc_file :: "(string \<Rightarrow> string list option) \<Rightarrow> string \<Rightarrow> string \<Rightarrow> bool" where
  "has_pc_file entries K d =
     (case entries d of None \<Rightarrow> False | Some names \<Rightarrow> K \<noteq> [] \<and> K @ ''.pc'' \<in> set names)"

definition pc_file_path :: "string \<Rightarrow> string \<Rightarrow> string" where
  "pc_file_path d K =
     (if d \<noteq> [] \<and> last d = CHR ''/'' then butlast d else d) @ ''/'' @ K @ ''.pc''"

section \<open>Reading and parsing a descriptor (\<^verbatim>\<open>parse.c\<close>)\<close>

text \<open>
  The global switches of \<^verbatim>\<open>parse.c\<close> and the table of global variables that
  \<^verbatim>\<open>package_get_var\<close> consults; and the functions of GLib that the parser calls,
  which are not part of the sources and are parameters of the model.
\<close>

record settings =
  parse_strict :: bool
  define_prefix :: bool
  prefix_variable :: string
  global_vars :: "(string \<rightharpoonup> string) option"

record glib =
  g_shell_parse_argv :: "string \<Rightarrow> string list option"
  g_path_get_basename :: "string \<Rightarrow> string"
  g_path_get_dirname :: "string \<Rightarrow> string"
  g_dirname :: "string \<Rightarrow> string"

text \<open>
  \<^verbatim>\<open>read_one_line\<close>.  The stream is the list of bytes not yet read: \<^verbatim>\<open>getc\<close> takes
  the head, \<^verbatim>\<open>EOF\<close> is the empty list, \<^verbatim>\<open>ungetc\<close> puts the byte back (and does
  nothing for \<^verbatim>\<open>EOF\<close>).  The result is the return value, the buffer and the rest of
  the stream.  \<open>CHR 0x0A\<close> is \<^verbatim>\<open>'\n'\<close>, \<open>CHR 0x0D\<close> is \<^verbatim>\<open>'\r'\<close>, \<open>CHR 0x5C\<close> the
  backslash.  \<open>lookahead c stream\<close> is the stream after the block that reads
  \<^verbatim>\<open>next_c\<close> behind the byte \<open>c\<close> and puts it back unless the two bytes are
  \<^verbatim>\<open>\r\n\<close> or \<^verbatim>\<open>\n\r\<close>.
\<close>

text \<open>
  The C string that a buffer holds: its bytes before the first NUL.  A file may hold NUL
  bytes, and \<^verbatim>\<open>read_one_line\<close> appends them to the \<^verbatim>\<open>GString\<close> like any other byte.
\<close>

definition c_string :: "string \<Rightarrow> string" where
  "c_string buf = takeWhile (\<lambda>c. c \<noteq> CHR 0x00) buf"

definition lookahead :: "char \<Rightarrow> string \<Rightarrow> string" where
  "lookahead c stream =
     (case stream of
        [] \<Rightarrow> []
      | next_c # stream1 \<Rightarrow>
          if (c = CHR 0x0D \<and> next_c = CHR 0x0A) \<or> (c = CHR 0x0A \<and> next_c = CHR 0x0D)
          then stream1 else next_c # stream1)"

function read_loop :: "string \<Rightarrow> bool \<Rightarrow> bool \<Rightarrow> nat \<Rightarrow> string \<Rightarrow> bool \<times> string \<times> string" where
  "read_loop [] quoted comment n_read str =
     (n_read > 0, (if quoted then str @ [CHR 0x5C] else str), [])"
| "read_loop (c # stream) quoted comment n_read str =
     (if quoted then
        (if c = CHR ''#'' then read_loop stream False comment (Suc n_read) (str @ [CHR ''#''])
         else if c = CHR 0x0D \<or> c = CHR 0x0A then
           read_loop (lookahead c stream) False comment (Suc n_read) str
         else read_loop stream False comment (Suc n_read) ((str @ [CHR 0x5C]) @ [c]))
      else
        (if c = CHR ''#'' then read_loop stream False True (Suc n_read) str
         else if c = CHR 0x5C then read_loop stream (\<not> comment) comment (Suc n_read) str
         else if c = CHR 0x0A then (Suc n_read > 0, str, lookahead c stream)
         else read_loop stream False comment (Suc n_read)
                (if comment then str else str @ [c])))"
  by pat_completeness auto
termination
  by (relation "measure (\<lambda>(stream, quoted, comment, n_read, str). length stream)")
     (auto simp: lookahead_def split: list.splits)

definition read_one_line :: "string \<Rightarrow> bool \<times> string \<times> string" where
  "read_one_line stream = read_loop stream False False 0 []"

definition trim_string :: "string \<Rightarrow> string" where
  "trim_string str = rev (dropWhile isspace (rev (dropWhile isspace str)))"

text \<open>
  \<^verbatim>\<open>trim_and_sub\<close>: the loop over the trimmed string.  A function of the parser that
  may print without ending the process returns, next to its value, what it printed.
  After \<open>${\<close> the pointer runs to the closing brace and one step further; without a
  closing brace that step leaves the string, and the next test of \<^verbatim>\<open>*p\<close> reads
  outside it.  An undefined variable in lax mode appends nothing
  (\<^verbatim>\<open>g_string_append\<close> ignores \<^verbatim>\<open>NULL\<close>).
\<close>

function sub_loop ::
    "settings \<Rightarrow> Package_fields \<Rightarrow> string \<Rightarrow> string \<Rightarrow> string \<Rightarrow> diag list \<Rightarrow>
     diag + string \<times> diag list" where
  "sub_loop cfg pf path [] subst out = Inr (subst, out)"
| "sub_loop cfg pf path [c] subst out = sub_loop cfg pf path [] (subst @ [c]) out"
| "sub_loop cfg pf path (c # d # p) subst out =
     (if c = CHR ''$'' \<and> d = CHR ''$'' then sub_loop cfg pf path p (subst @ [CHR ''$'']) out
      else if c = CHR ''$'' \<and> d = CHR ''{'' then
        (let varname = takeWhile (\<lambda>x. x \<noteq> CHR ''}'') p;
             varval = package_get_var (global_vars cfg) pf varname
         in if varval = None \<and> parse_strict cfg then Inl (Variable_not_defined varname path)
            else
              (case dropWhile (\<lambda>x. x \<noteq> CHR ''}'') p of
                 [] \<Rightarrow> Inl Read_past_end
               | brace # p1 \<Rightarrow>
                   (case varval of
                      None \<Rightarrow>
                        sub_loop cfg pf path p1 subst (out @ [Variable_not_defined varname path])
                    | Some v \<Rightarrow> sub_loop cfg pf path p1 (subst @ v) out)))
      else sub_loop cfg pf path (d # p) (subst @ [c]) out)"
  by pat_completeness auto
termination
  apply (relation "measure (\<lambda>(cfg, pf, path, p, subst, out). length p)")
      apply simp_all
  subgoal for cfg pf c p x xa x21 x22
    using length_dropWhile_le [of "\<lambda>x. x \<noteq> CHR ''}''" p] by simp
  subgoal for cfg pf c p x xa x21 x22 x2
    using length_dropWhile_le [of "\<lambda>x. x \<noteq> CHR ''}''" p] by simp
  done

definition trim_and_sub ::
    "settings \<Rightarrow> Package_fields \<Rightarrow> string \<Rightarrow> string \<Rightarrow> diag + string \<times> diag list" where
  "trim_and_sub cfg pf str path = sub_loop cfg pf path (trim_string str) [] []"

definition parse_name ::
    "settings \<Rightarrow> Package_fields \<Rightarrow> string \<Rightarrow> string \<Rightarrow> diag + Package_fields \<times> diag list" where
  "parse_name cfg pf str path =
     (if name pf \<noteq> None then
        (if parse_strict cfg then Inl (Field_occurs_twice ''Name'' path)
         else Inr (pf, [Field_occurs_twice ''Name'' path]))
      else
        (case trim_and_sub cfg pf str path of
           Inl e \<Rightarrow> Inl e
         | Inr (s, out) \<Rightarrow> Inr (pf\<lparr>name := Some s\<rparr>, out)))"

definition parse_version ::
    "settings \<Rightarrow> Package_fields \<Rightarrow> string \<Rightarrow> string \<Rightarrow> diag + Package_fields \<times> diag list" where
  "parse_version cfg pf str path =
     (if version pf \<noteq> None then
        (if parse_strict cfg then Inl (Field_occurs_twice ''Version'' path)
         else Inr (pf, [Field_occurs_twice ''Version'' path]))
      else
        (case trim_and_sub cfg pf str path of
           Inl e \<Rightarrow> Inl e
         | Inr (s, out) \<Rightarrow> Inr (pf\<lparr>version := Some s\<rparr>, out)))"

definition parse_description ::
    "settings \<Rightarrow> Package_fields \<Rightarrow> string \<Rightarrow> string \<Rightarrow> diag + Package_fields \<times> diag list" where
  "parse_description cfg pf str path =
     (if description pf \<noteq> None then
        (if parse_strict cfg then Inl (Field_occurs_twice ''Description'' path)
         else Inr (pf, [Field_occurs_twice ''Description'' path]))
      else
        (case trim_and_sub cfg pf str path of
           Inl e \<Rightarrow> Inl e
         | Inr (s, out) \<Rightarrow> Inr (pf\<lparr>description := Some s\<rparr>, out)))"

definition MODULE_SEPARATOR :: "char \<Rightarrow> bool" where
  "MODULE_SEPARATOR c = (c = CHR '','' \<or> isspace c)"

definition OPERATOR_CHAR :: "char \<Rightarrow> bool" where
  "OPERATOR_CHAR c = (c = CHR ''<'' \<or> c = CHR ''>'' \<or> c = CHR ''!'' \<or> c = CHR ''='')"

datatype ModuleSplitState =
  OUTSIDE_MODULE | IN_MODULE_NAME | BEFORE_OPERATOR | IN_OPERATOR | AFTER_OPERATOR
  | IN_MODULE_VERSION

text \<open>
  The \<^verbatim>\<open>switch\<close> of \<^verbatim>\<open>split_module_list\<close>: the state after the byte \<open>c\<close>, where
  \<open>rest\<close> is what follows \<open>c\<close> (the look-ahead from a module name skips the white space
  from \<open>c\<close> on and asks whether an operator byte comes next).
\<close>

fun next_state :: "ModuleSplitState \<Rightarrow> char \<Rightarrow> string \<Rightarrow> diag + ModuleSplitState" where
  "next_state OUTSIDE_MODULE c rest =
     Inr (if \<not> MODULE_SEPARATOR c then IN_MODULE_NAME else OUTSIDE_MODULE)"
| "next_state IN_MODULE_NAME c rest =
     Inr (if isspace c then
            (case dropWhile isspace (c # rest) of
               [] \<Rightarrow> OUTSIDE_MODULE
             | s # _ \<Rightarrow> if OPERATOR_CHAR s then BEFORE_OPERATOR else OUTSIDE_MODULE)
          else if MODULE_SEPARATOR c then OUTSIDE_MODULE
          else IN_MODULE_NAME)"
| "next_state BEFORE_OPERATOR c rest =
     (if isspace c then Inr BEFORE_OPERATOR
      else if OPERATOR_CHAR c then Inr IN_OPERATOR
      else Inl Assertion_failed)"
| "next_state IN_OPERATOR c rest =
     Inr (if \<not> OPERATOR_CHAR c then AFTER_OPERATOR else IN_OPERATOR)"
| "next_state AFTER_OPERATOR c rest =
     Inr (if \<not> isspace c then IN_MODULE_VERSION else AFTER_OPERATOR)"
| "next_state IN_MODULE_VERSION c rest =
     Inr (if MODULE_SEPARATOR c then OUTSIDE_MODULE else IN_MODULE_VERSION)"

text \<open>
  The loop of \<^verbatim>\<open>split_module_list\<close> over the bytes left to read.  \<open>cur\<close> is the text
  between \<^verbatim>\<open>start\<close> and \<^verbatim>\<open>p\<close>: it is emptied where the code sets
  \<^verbatim>\<open>start = p\<close> (on entering a module name and on leaving a module) and grows by
  the current byte at \<^verbatim>\<open>++p\<close>.  \<open>retval\<close> is built by prepending and reversed at
  the end.
\<close>

fun split_loop ::
    "string \<Rightarrow> string \<Rightarrow> ModuleSplitState \<Rightarrow> ModuleSplitState \<Rightarrow> string list \<Rightarrow>
     diag + string list" where
  "split_loop [] cur state last_state retval =
     Inr (rev (if state \<noteq> OUTSIDE_MODULE then cur # retval else retval))"
| "split_loop (c # rest) cur state last_state retval =
     (case next_state state c rest of
        Inl e \<Rightarrow> Inl e
      | Inr state1 \<Rightarrow>
          (let cur1 = (if state = OUTSIDE_MODULE \<and> \<not> MODULE_SEPARATOR c then [] else cur)
           in if state1 = OUTSIDE_MODULE \<and> last_state \<noteq> OUTSIDE_MODULE
              then split_loop rest [c] state1 state1 (cur1 # retval)
              else split_loop rest (cur1 @ [c]) state1 state1 retval))"

definition split_module_list :: "string \<Rightarrow> diag + string list" where
  "split_module_list str = split_loop str [] OUTSIDE_MODULE OUTSIDE_MODULE []"

text \<open>
  The body of the \<^verbatim>\<open>for\<close> loop of \<^verbatim>\<open>do_parse_module_list\<close> for one string of
  the split: the entry it has put on the list when the iteration ends, and what it
  printed.  The code allocates the entry and prepends it to \<^verbatim>\<open>*listp\<close> before it
  looks at the string, and fills it in place; a \<^verbatim>\<open>continue\<close> leaves the entry on the
  list as far as it is filled.  The NUL bytes written into the string end the name at the
  first white space, the operator at the next white space and the version at the first
  separator.
\<close>

definition parse_module ::
    "bool \<Rightarrow> string option \<Rightarrow> string \<Rightarrow> string \<Rightarrow> diag + RequiredVersion \<times> diag list" where
  "parse_module strict own m path =
     (let nm = takeWhile (\<lambda>c. \<not> isspace c) m;
          p1 = dropWhile isspace (dropWhile (\<lambda>c. \<not> isspace c) m);
          ver0 = \<lparr>rv_name = Some nm, rv_comparison = ALWAYS_MATCH, rv_version = None,
                  rv_owner = own\<rparr>;
          opr = takeWhile (\<lambda>c. \<not> isspace c) p1;
          p2 = dropWhile isspace (dropWhile (\<lambda>c. \<not> isspace c) p1);
          cmp = (if opr = ''='' then Some EQUAL
                 else if opr = ''>='' then Some GREATER_THAN_EQUAL
                 else if opr = ''<='' then Some LESS_THAN_EQUAL
                 else if opr = ''>'' then Some GREATER_THAN
                 else if opr = ''<'' then Some LESS_THAN
                 else if opr = ''!='' then Some NOT_EQUAL
                 else None);
          vers = takeWhile (\<lambda>c. \<not> MODULE_SEPARATOR c) p2
      in if nm = [] then Inl Assertion_failed
         else if opr \<noteq> [] \<and> cmp = None then
           (if strict then Inl (Unknown_comparison_operator opr nm path)
            else Inr (ver0, [Unknown_comparison_operator opr nm path]))
         else
           (let ver1 = (case cmp of Some k \<Rightarrow> ver0\<lparr>rv_comparison := k\<rparr> | None \<Rightarrow> ver0)
            in if rv_comparison ver1 \<noteq> ALWAYS_MATCH \<and> vers = [] then
                 (if strict then Inl (Operator_but_no_version nm path)
                  else Inr (ver1\<lparr>rv_version := Some ''0''\<rparr>, [Operator_but_no_version nm path]))
               else if vers \<noteq> [] then Inr (ver1\<lparr>rv_version := Some vers\<rparr>, [])
               else Inr (ver1, [])))"

fun parse_modules ::
    "bool \<Rightarrow> string option \<Rightarrow> string \<Rightarrow> string list \<Rightarrow> RequiredVersion list \<Rightarrow> diag list \<Rightarrow>
     diag + RequiredVersion list \<times> diag list" where
  "parse_modules strict own path [] listp out = Inr (listp, out)"
| "parse_modules strict own path (m # iter) listp out =
     (case parse_module strict own m path of
        Inl e \<Rightarrow> Inl e
      | Inr (ver, msgs) \<Rightarrow> parse_modules strict own path iter (ver # listp) (out @ msgs))"

definition do_parse_module_list ::
    "settings \<Rightarrow> Package_fields \<Rightarrow> RequiredVersion list \<Rightarrow> string \<Rightarrow> string \<Rightarrow>
     diag + RequiredVersion list \<times> diag list" where
  "do_parse_module_list cfg pf listp str path =
     (case split_module_list str of
        Inl e \<Rightarrow> Inl e
      | Inr split \<Rightarrow> parse_modules (parse_strict cfg) (key pf) path split listp [])"

definition parse_module_list ::
    "settings \<Rightarrow> Package_fields \<Rightarrow> string \<Rightarrow> string \<Rightarrow> diag + RequiredVersion list \<times> diag list" where
  "parse_module_list cfg pf str path =
     (case do_parse_module_list cfg pf [] str path of
        Inl e \<Rightarrow> Inl e
      | Inr (l, out) \<Rightarrow> Inr (rev l, out))"

definition parse_deps ::
    "settings \<Rightarrow> Package_fields \<Rightarrow> RequiredVersion list \<Rightarrow> string \<Rightarrow> string \<Rightarrow>
     diag + RequiredVersion list \<times> diag list" where
  "parse_deps cfg pf listp str path =
     (case trim_and_sub cfg pf str path of
        Inl e \<Rightarrow> Inl e
      | Inr (trimmed, out) \<Rightarrow>
          (case do_parse_module_list cfg pf listp trimmed path of
             Inl e \<Rightarrow> Inl e
           | Inr (l, msgs) \<Rightarrow> Inr (l, out @ msgs)))"

text \<open>
  \<^verbatim>\<open>strdup_escape_shell\<close> compares plain \<^verbatim>\<open>char\<close>s, which are signed on the usual
  platforms: a byte from 128 on is negative and so below \<^verbatim>\<open>'$'\<close>.
\<close>

definition signed_char :: "char \<Rightarrow> int" where
  "signed_char c =
     (if (of_char c :: nat) < 128 then int (of_char c) else int (of_char c) - 256)"

definition needs_backslash :: "char \<Rightarrow> bool" where
  "needs_backslash c =
     (let v = signed_char c
      in v < 36 \<or> (v > 36 \<and> v < 40) \<or> (v > 41 \<and> v < 43) \<or> (v > 58 \<and> v < 61)
         \<or> (v > 61 \<and> v < 64) \<or> (v > 90 \<and> v < 94) \<or> v = 96 \<or> (v > 122 \<and> v < 126)
         \<or> v > 126)"

fun strdup_escape_shell :: "string \<Rightarrow> string" where
  "strdup_escape_shell [] = []"
| "strdup_escape_shell (c # s) =
     (if needs_backslash c then CHR 0x5C # c # strdup_escape_shell s
      else c # strdup_escape_shell s)"

text \<open>
  \<^verbatim>\<open>do_parse_libs\<close> without the \<^verbatim>\<open>G_OS_WIN32\<close> part: the flags are \<^verbatim>\<open>-L\<close> and
  \<^verbatim>\<open>-l\<close> and there is no suffix.  The list of the arguments still to look at
  replaces the index \<^verbatim>\<open>i\<close>.
\<close>

fun do_parse_libs :: "Flag list \<Rightarrow> string list \<Rightarrow> Flag list" where
  "do_parse_libs listp [] = listp"
| "do_parse_libs listp (a # argv) =
     (let ar = strdup_escape_shell (trim_string a)
      in if take 2 ar = ''-l'' \<and> take 5 ar \<noteq> ''-lib:'' then
           do_parse_libs
             (\<lparr>flag_type = LIBS_l, arg = ''-l'' @ dropWhile isspace (drop 2 ar)\<rparr> # listp) argv
         else if take 2 ar = ''-L'' then
           do_parse_libs
             (\<lparr>flag_type = LIBS_L, arg = ''-L'' @ dropWhile isspace (drop 2 ar)\<rparr> # listp) argv
         else
           (case argv of
              [] \<Rightarrow>
                if ar \<noteq> [] then do_parse_libs (\<lparr>flag_type = LIBS_OTHER, arg = ar\<rparr> # listp) []
                else do_parse_libs listp []
            | b # argv1 \<Rightarrow>
                if ar = ''-framework'' \<or> ar = ''-Wl,-framework'' then
                  do_parse_libs
                    (\<lparr>flag_type = LIBS_OTHER,
                      arg = (ar @ '' '') @ strdup_escape_shell (trim_string b)\<rparr> # listp) argv1
                else if ar \<noteq> [] then
                  do_parse_libs (\<lparr>flag_type = LIBS_OTHER, arg = ar\<rparr> # listp) (b # argv1)
                else do_parse_libs listp (b # argv1)))"

definition parse_libs ::
    "glib \<Rightarrow> settings \<Rightarrow> Package_fields \<Rightarrow> Flag list \<Rightarrow> string \<Rightarrow> string \<Rightarrow> string \<Rightarrow>
     diag + Flag list \<times> diag list" where
  "parse_libs lib cfg pf listp field str path =
     (case trim_and_sub cfg pf str path of
        Inl e \<Rightarrow> Inl e
      | Inr (trimmed, out) \<Rightarrow>
          (if trimmed \<noteq> [] then
             (case g_shell_parse_argv lib trimmed of
                None \<Rightarrow>
                  if parse_strict cfg then Inl (Cannot_parse_argv field)
                  else Inr (listp, out @ [Cannot_parse_argv field])
              | Some argv \<Rightarrow> Inr (do_parse_libs listp argv, out))
           else Inr (do_parse_libs listp [], out)))"

text \<open>The \<^verbatim>\<open>while\<close> loop of \<^verbatim>\<open>parse_cflags\<close> over the argument vector.\<close>

fun cflags_loop :: "Flag list \<Rightarrow> string list \<Rightarrow> Flag list" where
  "cflags_loop listp [] = listp"
| "cflags_loop listp (a # argv) =
     (let ar = strdup_escape_shell (trim_string a)
      in if take 2 ar = ''-I'' then
           cflags_loop
             (\<lparr>flag_type = CFLAGS_I, arg = ''-I'' @ dropWhile isspace (drop 2 ar)\<rparr> # listp) argv
         else
           (case argv of
              [] \<Rightarrow>
                if ar \<noteq> [] then cflags_loop (\<lparr>flag_type = CFLAGS_OTHER, arg = ar\<rparr> # listp) []
                else cflags_loop listp []
            | b # argv1 \<Rightarrow>
                if ar = ''-idirafter'' \<or> ar = ''-isystem'' then
                  cflags_loop
                    (\<lparr>flag_type = CFLAGS_I,
                      arg = (ar @ '' '') @ strdup_escape_shell (trim_string b)\<rparr> # listp) argv1
                else if ar \<noteq> [] then
                  cflags_loop (\<lparr>flag_type = CFLAGS_OTHER, arg = ar\<rparr> # listp) (b # argv1)
                else cflags_loop listp (b # argv1)))"

definition parse_cflags ::
    "glib \<Rightarrow> settings \<Rightarrow> Package_fields \<Rightarrow> string \<Rightarrow> string \<Rightarrow>
     diag + Package_fields \<times> diag list" where
  "parse_cflags lib cfg pf str path =
     (if cflags pf \<noteq> [] then
        (if parse_strict cfg then Inl (Field_occurs_twice ''Cflags'' path)
         else Inr (pf, [Field_occurs_twice ''Cflags'' path]))
      else
        (case trim_and_sub cfg pf str path of
           Inl e \<Rightarrow> Inl e
         | Inr (trimmed, out) \<Rightarrow>
             (if trimmed \<noteq> [] then
                (case g_shell_parse_argv lib trimmed of
                   None \<Rightarrow>
                     if parse_strict cfg then Inl (Cannot_parse_argv ''Cflags'')
                     else Inr (pf, out @ [Cannot_parse_argv ''Cflags''])
                 | Some argv \<Rightarrow> Inr (pf\<lparr>cflags := cflags_loop (cflags pf) argv\<rparr>, out))
              else Inr (pf\<lparr>cflags := cflags_loop (cflags pf) []\<rparr>, out))))"

definition parse_url ::
    "settings \<Rightarrow> Package_fields \<Rightarrow> string \<Rightarrow> string \<Rightarrow> diag + Package_fields \<times> diag list" where
  "parse_url cfg pf str path =
     (if url pf \<noteq> None then
        (if parse_strict cfg then Inl (Field_occurs_twice ''URL'' path)
         else Inr (pf, [Field_occurs_twice ''URL'' path]))
      else
        (case trim_and_sub cfg pf str path of
           Inl e \<Rightarrow> Inl e
         | Inr (s, out) \<Rightarrow> Inr (pf\<lparr>url := Some s\<rparr>, out)))"

text \<open>
  A \<^verbatim>\<open>GHashTable *\<close> that may be \<^verbatim>\<open>NULL\<close>: GLib answers a lookup in \<^verbatim>\<open>NULL\<close> with
  \<^verbatim>\<open>NULL\<close> and ignores an insertion into it.
\<close>

definition g_hash_table_lookup :: "('k \<rightharpoonup> 'v) option \<Rightarrow> 'k \<Rightarrow> 'v option" where
  "g_hash_table_lookup tab k = (case tab of None \<Rightarrow> None | Some t \<Rightarrow> t k)"

definition g_hash_table_insert :: "('k \<rightharpoonup> 'v) option \<Rightarrow> 'k \<Rightarrow> 'v \<Rightarrow> ('k \<rightharpoonup> 'v) option" where
  "g_hash_table_insert tab k v = (case tab of None \<Rightarrow> None | Some t \<Rightarrow> Some (t(k \<mapsto> v)))"

definition g_ascii_tolower :: "char \<Rightarrow> char" where
  "g_ascii_tolower c =
     (if 65 \<le> (of_char c :: nat) \<and> (of_char c :: nat) \<le> 90
      then char_of ((of_char c :: nat) + 32) else c)"

text \<open>The keyword branch of \<^verbatim>\<open>parse_line\<close>: \<open>p\<close> is the text after the colon.\<close>

definition parse_keyword ::
    "glib \<Rightarrow> settings \<Rightarrow> Package_fields \<Rightarrow> string \<Rightarrow> string \<Rightarrow> string \<Rightarrow>
     diag + Package_fields \<times> diag list" where
  "parse_keyword lib cfg pf tag p path =
     (if tag = ''Name'' then parse_name cfg pf p path
      else if tag = ''Description'' then parse_description cfg pf p path
      else if tag = ''Version'' then parse_version cfg pf p path
      else if tag = ''Requires.private'' then
        (case parse_deps cfg pf (requires_private_entries pf) p path of
           Inl e \<Rightarrow> Inl e
         | Inr (l, out) \<Rightarrow> Inr (pf\<lparr>requires_private_entries := l\<rparr>, out))
      else if tag = ''Requires'' then
        (case parse_deps cfg pf (requires_entries pf) p path of
           Inl e \<Rightarrow> Inl e
         | Inr (l, out) \<Rightarrow> Inr (pf\<lparr>requires_entries := l\<rparr>, out))
      else if tag = ''Libs.private'' then
        (case parse_libs lib cfg pf (libs_private pf) ''Libs.private'' p path of
           Inl e \<Rightarrow> Inl e
         | Inr (l, out) \<Rightarrow> Inr (pf\<lparr>libs_private := l\<rparr>, out))
      else if tag = ''Libs'' then
        (case parse_libs lib cfg pf (libs pf) ''Libs'' p path of
           Inl e \<Rightarrow> Inl e
         | Inr (l, out) \<Rightarrow> Inr (pf\<lparr>libs := l\<rparr>, out))
      else if tag = ''Cflags'' \<or> tag = ''CFlags'' then parse_cflags lib cfg pf p path
      else if tag = ''Conflicts'' then
        (case parse_deps cfg pf (conflicts pf) p path of
           Inl e \<Rightarrow> Inl e
         | Inr (l, out) \<Rightarrow> Inr (pf\<lparr>conflicts := l\<rparr>, out))
      else if tag = ''URL'' then parse_url cfg pf p path
      else Inr (pf, []))"

text \<open>
  The variable branch of \<^verbatim>\<open>parse_line\<close>: \<open>p\<close> is the text after the equals sign
  and the white space behind it.  \<^verbatim>\<open>G_IS_DIR_SEPARATOR\<close> is the test for a slash.
\<close>

definition parse_variable ::
    "glib \<Rightarrow> settings \<Rightarrow> Package_fields \<Rightarrow> string \<Rightarrow> string \<Rightarrow> string \<Rightarrow>
     diag + Package_fields \<times> diag list" where
  "parse_variable lib cfg pf tag p path =
     (case (if define_prefix cfg \<and> tag = prefix_variable cfg then
              (case pcfiledir pf of
                 None \<Rightarrow> Inl Null_dereference
               | Some dir \<Rightarrow>
                   if map g_ascii_tolower (g_path_get_basename lib dir) = ''pkgconfig'' then
                     (let prefix =
                            strdup_escape_shell
                              (map (\<lambda>c. if c = CHR 0x5C then CHR ''/'' else c)
                                 (g_path_get_dirname lib (g_path_get_dirname lib dir)))
                      in Inr (Inl (pf\<lparr>orig_prefix := Some p,
                                      vars := g_hash_table_insert (vars pf) tag prefix\<rparr>)))
                   else Inr (Inr (Some p)))
            else
              (case orig_prefix pf of
                 None \<Rightarrow> Inr (Inr (Some p))
               | Some op \<Rightarrow>
                   if define_prefix cfg \<and> op \<noteq> [] \<and> take (length op) p = op
                      \<and> (case drop (length op) p of [] \<Rightarrow> False | c # _ \<Rightarrow> c = CHR ''/'')
                   then
                     Inr (Inr (case g_hash_table_lookup (vars pf) (prefix_variable cfg) of
                                 None \<Rightarrow> None
                               | Some v \<Rightarrow> Some (v @ drop (length op) p)))
                   else Inr (Inr (Some p)))) of
        Inl e \<Rightarrow> Inl e
      | Inr (Inl overridden) \<Rightarrow> Inr (overridden, [])
      | Inr (Inr value) \<Rightarrow>
          if g_hash_table_lookup (vars pf) tag \<noteq> None then
            (if parse_strict cfg then Inl (Duplicate_variable tag path)
             else Inr (pf, [Duplicate_variable tag path]))
          else
            (case value of
               None \<Rightarrow> Inl Null_dereference
             | Some v \<Rightarrow>
                 (case trim_and_sub cfg pf v path of
                    Inl e \<Rightarrow> Inl e
                  | Inr (varval, out) \<Rightarrow>
                      Inr (pf\<lparr>vars := g_hash_table_insert (vars pf) tag varval\<rparr>, out))))"

definition tag_char :: "char \<Rightarrow> bool" where
  "tag_char c =
     ((65 \<le> (of_char c :: nat) \<and> (of_char c :: nat) \<le> 90)
      \<or> (97 \<le> (of_char c :: nat) \<and> (of_char c :: nat) \<le> 122)
      \<or> (48 \<le> (of_char c :: nat) \<and> (of_char c :: nat) \<le> 57)
      \<or> c = CHR ''_'' \<or> c = CHR ''.'')"

definition parse_line ::
    "glib \<Rightarrow> settings \<Rightarrow> Package_fields \<Rightarrow> string \<Rightarrow> string \<Rightarrow>
     diag + Package_fields \<times> diag list" where
  "parse_line lib cfg pf untrimmed path =
     (let str = trim_string untrimmed
      in if str = [] then Inr (pf, [])
         else
           (let tag = takeWhile tag_char str
            in case dropWhile isspace (dropWhile tag_char str) of
                 [] \<Rightarrow> Inr (pf, [])
               | c # p \<Rightarrow>
                   if c = CHR '':'' then parse_keyword lib cfg pf tag (dropWhile isspace p) path
                   else if c = CHR ''='' then
                     parse_variable lib cfg pf tag (dropWhile isspace p) path
                   else Inr (pf, [])))"

text \<open>
  The \<^verbatim>\<open>while (read_one_line (f, str))\<close> loop of \<^verbatim>\<open>parse_package_file\<close>.  The
  line is handed on as \<^verbatim>\<open>str->str\<close>, a C string.  Every successful read takes at
  least one byte off the stream, so the loop ends.
\<close>

function parse_lines ::
    "glib \<Rightarrow> settings \<Rightarrow> string \<Rightarrow> string \<Rightarrow> Package_fields \<Rightarrow> bool \<Rightarrow> diag list \<Rightarrow>
     diag + Package_fields \<times> bool \<times> diag list" where
  "parse_lines lib cfg path stream pf one_line out =
     (case read_one_line stream of
        (False, str, rest) \<Rightarrow> Inr (pf, one_line, out)
      | (True, str, rest) \<Rightarrow>
          (case parse_line lib cfg pf (c_string str) path of
             Inl e \<Rightarrow> Inl e
           | Inr (pf1, msgs) \<Rightarrow> parse_lines lib cfg path rest pf1 True (out @ msgs)))"
  by pat_completeness auto
termination
  apply (relation "measure (\<lambda>(lib, cfg, path, stream, pf, one_line, out). length stream)")
   apply simp
  apply simp
  subgoal premises rd for lib cfg path stream pf x y xa ya b xb yb
  proof -
    have look: "length (lookahead c s) \<le> length s" for c s
      by (simp add: lookahead_def split: list.split)
    have shrink: "length (snd (snd (read_loop s q k n str))) \<le> length s" for s q k n str
    proof (induction s q k n str rule: read_loop.induct)
      case (1 quoted comment n_read str)
      show ?case by simp
    next
      case (2 c stream quoted comment n_read str)
      show ?case
        using "2.IH" look [of c stream]
        by (subst read_loop.simps(2)) (auto simp del: read_loop.simps)
    qed
    have rl: "read_loop stream False False 0 [] = (True, xa, ya)"
      using rd(1) rd(3) by (simp add: read_one_line_def)
    show "length ya < length stream"
    proof (cases stream)
      case Nil
      with rl show ?thesis by simp
    next
      case (Cons c rest)
      have "length (snd (snd (read_loop (c # rest) False False 0 []))) \<le> length rest"
        using shrink [of rest] look [of c rest]
        by (subst read_loop.simps(2)) (auto simp del: read_loop.simps)
      with rl show ?thesis unfolding Cons by simp
    qed
  qed
  done

text \<open>
  \<^verbatim>\<open>parse_package_file\<close> of \<^verbatim>\<open>parse.c\<close>.  \<open>files\<close> gives the bytes of every file
  that \<^verbatim>\<open>fopen\<close> can open.  The result is the record of the parsed fields.
\<close>

definition parse_package_file ::
    "glib \<Rightarrow> settings \<Rightarrow> (string \<rightharpoonup> string) \<Rightarrow> string option \<Rightarrow> string \<Rightarrow>
     diag + Package_fields option \<times> diag list" where
  "parse_package_file lib cfg files k path =
     (case files path of
        None \<Rightarrow> Inr (None, [Failed_to_open path])
      | Some bytes \<Rightarrow>
          (let dir = g_dirname lib path;
               pf0 = new0_fields\<lparr>key := k, pcfiledir := Some dir,
                                 vars := Some [''pcfiledir'' \<mapsto> dir]\<rparr>
           in case parse_lines lib cfg path bytes pf0 False [] of
                Inl e \<Rightarrow> Inl e
              | Inr (pf, one_line, out) \<Rightarrow>
                  Inr (Some (pf\<lparr>requires_entries := rev (requires_entries pf),
                                requires_private_entries := rev (requires_private_entries pf),
                                conflicts := rev (conflicts pf),
                                cflags := rev (cflags pf),
                                libs := rev (libs pf),
                                libs_private := rev (libs_private pf)\<rparr>),
                       if \<not> one_line then out @ [File_appears_empty path] else out)))"

text \<open>
  For the statement about operators: the name and the operator of one entry of a module
  list, that is the first and the second word of the entry (words end at white space).
\<close>

definition module_name_part :: "string \<Rightarrow> string" where
  "module_name_part m = takeWhile (\<lambda>c. \<not> isspace c) m"

definition module_operator_part :: "string \<Rightarrow> string" where
  "module_operator_part m =
     takeWhile (\<lambda>c. \<not> isspace c) (dropWhile isspace (dropWhile (\<lambda>c. \<not> isspace c) m))"

text \<open>
  For the statement about the merges: the elements of a list at the positions behind
  which the same element does not occur again (the last occurrences), and at the
  positions before which it does not occur (the first occurrences), in the order of the
  list.
\<close>

definition keep_last_occurrence :: "'a list \<Rightarrow> 'a list" where
  "keep_last_occurrence xs =
     map ((!) xs) (filter (\<lambda>i. xs ! i \<notin> set (drop (Suc i) xs)) [0..<length xs])"

definition keep_first_occurrence :: "'a list \<Rightarrow> 'a list" where
  "keep_first_occurrence xs =
     map ((!) xs) (filter (\<lambda>i. xs ! i \<notin> set (take i xs)) [0..<length xs])"

section \<open>Facts about the C library model\<close>

lemma strcmp_same: "strcmp a a = 0"
  by (induction a) auto

lemma strcmp_zero_eq: "strcmp a b = 0 \<Longrightarrow> a = b"
  by (induction a b rule: strcmp.induct) (auto split: if_splits)

lemma strcmp_swap: "strcmp b a = - strcmp a b"
  by (induction a b rule: strcmp.induct) (auto split: if_splits)

lemma uint_gsize_minus_one: "uint (- 1 :: 64 word) = 18446744073709551615"
  by (simp add: uint_word_ariths)

lemma unat_gsize_minus_one: "unat (- 1 :: 64 word) = 18446744073709551615"
  using uint_gsize_minus_one by (simp add: unat_eq_nat_uint)

section \<open>De-duplication keeps one occurrence of every string\<close>

lemma remdups_snoc: "remdups (xs @ [x]) = filter (\<lambda>y. y \<noteq> x) (remdups xs) @ [x]"
  by (induction xs) auto

lemma strip_loop_remdups:
  "strip_loop ys table acc = filter (\<lambda>y. table y = None) (remdups (rev ys)) @ acc"
proof (induction ys arbitrary: table acc)
  case Nil
  show ?case by simp
next
  case (Cons x ys)
  have split: "remdups (rev ys @ [x]) = filter (\<lambda>y. y \<noteq> x) (remdups (rev ys)) @ [x]"
    by (rule remdups_snoc)
  show ?case
  proof (cases "table x")
    case None
    have "filter (\<lambda>y. (table(x \<mapsto> x)) y = None) (remdups (rev ys))
          = filter (\<lambda>y. table y = None) (filter (\<lambda>y. y \<noteq> x) (remdups (rev ys)))"
      by (auto intro: filter_cong)
    with None show ?thesis by (simp add: Cons.IH split)
  next
    case (Some v)
    have "filter (\<lambda>y. table y = None) (filter (\<lambda>y. y \<noteq> x) (remdups (rev ys)))
          = filter (\<lambda>y. table y = None) (remdups (rev ys))"
      using Some by (auto intro: filter_cong)
    with Some show ?thesis by (simp add: Cons.IH split)
  qed
qed

lemma strip_from_back_remdups: "string_list_strip_duplicates_from_back xs = remdups xs"
  by (simp add: string_list_strip_duplicates_from_back_def strip_loop_remdups)

lemma strip_remdups: "string_list_strip_duplicates xs = rev (remdups (rev xs))"
  by (simp add: string_list_strip_duplicates_def strip_loop_remdups)

lemma remdups_last_positions:
  "remdups xs = map ((!) xs) (filter (\<lambda>i. xs ! i \<notin> set (drop (Suc i) xs)) [0..<length xs])"
proof (induction xs)
  case Nil
  show ?case by simp
next
  case (Cons x xs)
  have idx: "[0..<length (x # xs)] = 0 # map Suc [0..<length xs]"
    by (simp add: upt_conv_Cons map_Suc_upt del: upt_Suc)
  show ?case
    unfolding idx by (simp add: Cons.IH filter_map comp_def del: upt_Suc)
qed

lemma first_positions:
  "rev (remdups (rev xs))
   = map ((!) xs) (filter (\<lambda>i. xs ! i \<notin> set (take i xs)) [0..<length xs])"
proof (induction xs rule: rev_induct)
  case Nil
  show ?case by simp
next
  case (snoc x xs)
  have a: "filter (\<lambda>i. (xs @ [x]) ! i \<notin> set (take i (xs @ [x]))) [0..<length xs]
           = filter (\<lambda>i. xs ! i \<notin> set (take i xs)) [0..<length xs]"
    by (rule filter_cong) (auto simp: nth_append)
  have b: "map ((!) (xs @ [x])) (filter (\<lambda>i. xs ! i \<notin> set (take i xs)) [0..<length xs])
           = map ((!) xs) (filter (\<lambda>i. xs ! i \<notin> set (take i xs)) [0..<length xs])"
    by (rule map_cong) (auto simp: nth_append)
  have c: "[0..<length (xs @ [x])] = [0..<length xs] @ [length xs]"
    by simp
  have "rev (remdups (rev (xs @ [x])))
        = rev (remdups (rev xs)) @ (if x \<in> set xs then [] else [x])"
    by simp
  also have "\<dots> = map ((!) (xs @ [x]))
       (filter (\<lambda>i. (xs @ [x]) ! i \<notin> set (take i (xs @ [x])))
          ([0..<length xs] @ [length xs]))"
    unfolding filter_append map_append a b snoc.IH by simp
  finally show ?case unfolding c .
qed

lemma to_string_loop_concat:
  "to_string_loop xs str = str @ concat (map (\<lambda>a. a @ [CHR '' '']) xs)"
  by (induction xs arbitrary: str) simp_all

lemma keep_last_eq: "string_list_strip_duplicates_from_back xs = keep_last_occurrence xs"
  unfolding strip_from_back_remdups keep_last_occurrence_def by (rule remdups_last_positions)

lemma keep_first_eq: "string_list_strip_duplicates xs = keep_first_occurrence xs"
  unfolding strip_remdups keep_first_occurrence_def by (rule first_positions)

text \<open>
  Claim C4.  The merge of \<^verbatim>\<open>l_libs\<close> (\<^verbatim>\<open>package_get_l_libs\<close> for a package whose
  cache is still empty, \<^verbatim>\<open>packages_get_l_libs\<close> for a list of packages) returns the
  strings of the transitive walk that are the last occurrence of their value, each once
  and in the order of the walk.  The merges of \<^verbatim>\<open>L_libs\<close> and \<^verbatim>\<open>I_cflags\<close>
  (\<^verbatim>\<open>package_get_L_libs\<close>, \<^verbatim>\<open>packages_get_L_libs\<close>, \<^verbatim>\<open>package_get_I_cflags\<close>,
  \<^verbatim>\<open>packages_get_I_cflags\<close>) return the strings that are the first occurrence of
  their value.  This is what the two helpers \<^verbatim>\<open>string_list_strip_duplicates_from_back\<close>
  and \<^verbatim>\<open>string_list_strip_duplicates\<close> do to any list.  For \<open>[-lA, -lB, -lA]\<close> the
  \<^verbatim>\<open>l_libs\<close> merge yields \<open>-lB -lA\<close>, for \<open>[-IA, -IB, -IA]\<close> the \<^verbatim>\<open>I_cflags\<close> merge
  yields \<open>-IA -IB\<close>.  (In the returned string every surviving flag is followed by one
  blank; that is the subject of claim C9.)
\<close>

theorem merges_keep_occurrence:
  assumes "l_libs_merged (fields_of pkg) = None" and "L_libs_merged (fields_of pkg) = None"
    and "I_cflags_merged (fields_of pkg) = None"
  shows "fst (package_get_l_libs pkg)
           = concat (map (\<lambda>a. a @ '' '')
               (keep_last_occurrence (recursive_fill_list pkg get_l_libs [])))
       \<and> packages_get_l_libs pkgs
           = concat (map (\<lambda>a. a @ '' '')
               (keep_last_occurrence (fold (\<lambda>p l. recursive_fill_list p get_l_libs l) pkgs [])))
       \<and> fst (package_get_L_libs pkg)
           = concat (map (\<lambda>a. a @ '' '')
               (keep_first_occurrence (recursive_fill_list pkg get_L_libs [])))
       \<and> packages_get_L_libs pkgs
           = concat (map (\<lambda>a. a @ '' '')
               (keep_first_occurrence (fold (\<lambda>p l. recursive_fill_list p get_L_libs l) pkgs [])))
       \<and> fst (package_get_I_cflags pkg)
           = concat (map (\<lambda>a. a @ '' '')
               (keep_first_occurrence (recursive_fill_list pkg get_I_cflags [])))
       \<and> packages_get_I_cflags pkgs
           = concat (map (\<lambda>a. a @ '' '')
               (keep_first_occurrence
                  (fold (\<lambda>p l. recursive_fill_list p get_I_cflags l) pkgs [])))
       \<and> string_list_strip_duplicates_from_back xs = keep_last_occurrence xs
       \<and> string_list_strip_duplicates xs = keep_first_occurrence xs
       \<and> string_list_strip_duplicates_from_back [''-lA'', ''-lB'', ''-lA''] = [''-lB'', ''-lA'']
       \<and> string_list_strip_duplicates [''-IA'', ''-IB'', ''-IA''] = [''-IA'', ''-IB'']
       \<and> packages_get_l_libs [Package (new0_fields\<lparr>l_libs := [''-lA'', ''-lB'', ''-lA'']\<rparr>) []]
           = ''-lB -lA ''
       \<and> packages_get_I_cflags
             [Package (new0_fields\<lparr>I_cflags := [''-IA'', ''-IB'', ''-IA'']\<rparr>) []]
           = ''-IA -IB ''"
proof -
  have ex1: "packages_get_l_libs
               [Package (new0_fields\<lparr>l_libs := [''-lA'', ''-lB'', ''-lA'']\<rparr>) []] = ''-lB -lA ''"
    by (simp add: packages_get_l_libs_def get_multi_merged_from_back_def get_l_libs_def
        new0_fields_def string_list_strip_duplicates_from_back_def string_list_to_string_def)
  have ex2: "packages_get_I_cflags
               [Package (new0_fields\<lparr>I_cflags := [''-IA'', ''-IB'', ''-IA'']\<rparr>) []] = ''-IA -IB ''"
    by (simp add: packages_get_I_cflags_def get_multi_merged_def get_I_cflags_def
        new0_fields_def string_list_strip_duplicates_def string_list_to_string_def)
  have single: "fst (package_get_l_libs pkg)
           = concat (map (\<lambda>a. a @ '' '')
               (keep_last_occurrence (recursive_fill_list pkg get_l_libs [])))"
    "fst (package_get_L_libs pkg)
           = concat (map (\<lambda>a. a @ '' '')
               (keep_first_occurrence (recursive_fill_list pkg get_L_libs [])))"
    "fst (package_get_I_cflags pkg)
           = concat (map (\<lambda>a. a @ '' '')
               (keep_first_occurrence (recursive_fill_list pkg get_I_cflags [])))"
    using assms
    by (simp_all add: package_get_l_libs_def package_get_L_libs_def package_get_I_cflags_def
        Let_def get_merged_def get_merged_from_back_def string_list_to_string_def
        to_string_loop_concat keep_last_eq keep_first_eq)
  have multi: "packages_get_l_libs pkgs
           = concat (map (\<lambda>a. a @ '' '')
               (keep_last_occurrence (fold (\<lambda>p l. recursive_fill_list p get_l_libs l) pkgs [])))"
    "packages_get_L_libs pkgs
           = concat (map (\<lambda>a. a @ '' '')
               (keep_first_occurrence (fold (\<lambda>p l. recursive_fill_list p get_L_libs l) pkgs [])))"
    "packages_get_I_cflags pkgs
           = concat (map (\<lambda>a. a @ '' '')
               (keep_first_occurrence
                  (fold (\<lambda>p l. recursive_fill_list p get_I_cflags l) pkgs [])))"
    by (simp_all add: packages_get_l_libs_def packages_get_L_libs_def packages_get_I_cflags_def
        get_multi_merged_def get_multi_merged_from_back_def string_list_to_string_def
        to_string_loop_concat keep_last_eq keep_first_eq)
  have ex3: "string_list_strip_duplicates_from_back [''-lA'', ''-lB'', ''-lA'']
             = [''-lB'', ''-lA'']"
    by (simp add: string_list_strip_duplicates_from_back_def)
  have ex4: "string_list_strip_duplicates [''-IA'', ''-IB'', ''-IA''] = [''-IA'', ''-IB'']"
    by (simp add: string_list_strip_duplicates_def)
  from single multi ex1 ex2 ex3 ex4 keep_last_eq [of xs] keep_first_eq [of xs]
  show ?thesis by blast
qed

text \<open>
  Package \<open>a\<close> with \<open>-la\<close> and the include flags \<open>-IA -IB -IA\<close> requires package \<open>b\<close>
  with \<open>-lb -la\<close>: the walk gives \<open>-la -lb -la\<close>, of which the last occurrences
  \<open>-lb -la\<close> remain.
\<close>

theorem merges_keep_occurrence_witness:
  "l_libs_merged (fields_of (Package (new0_fields\<lparr>l_libs := [''-la''], I_cflags := [''-IA'', ''-IB'', ''-IA'']\<rparr>)
       [Package (new0_fields\<lparr>l_libs := [''-lb'', ''-la'']\<rparr>) []])) = None
   \<and> L_libs_merged (fields_of (Package (new0_fields\<lparr>l_libs := [''-la''], I_cflags := [''-IA'', ''-IB'', ''-IA'']\<rparr>)
       [Package (new0_fields\<lparr>l_libs := [''-lb'', ''-la'']\<rparr>) []])) = None
   \<and> I_cflags_merged (fields_of (Package (new0_fields\<lparr>l_libs := [''-la''], I_cflags := [''-IA'', ''-IB'', ''-IA'']\<rparr>)
       [Package (new0_fields\<lparr>l_libs := [''-lb'', ''-la'']\<rparr>) []])) = None
   \<and> fst (package_get_l_libs (Package (new0_fields\<lparr>l_libs := [''-la''], I_cflags := [''-IA'', ''-IB'', ''-IA'']\<rparr>)
       [Package (new0_fields\<lparr>l_libs := [''-lb'', ''-la'']\<rparr>) []])) = ''-lb -la ''
   \<and> fst (package_get_I_cflags (Package (new0_fields\<lparr>l_libs := [''-la''], I_cflags := [''-IA'', ''-IB'', ''-IA'']\<rparr>)
       [Package (new0_fields\<lparr>l_libs := [''-lb'', ''-la'']\<rparr>) []])) = ''-IA -IB ''"
proof -
  let ?p = "Package (new0_fields\<lparr>l_libs := [''-la''], I_cflags := [''-IA'', ''-IB'', ''-IA'']\<rparr>)
       [Package (new0_fields\<lparr>l_libs := [''-lb'', ''-la'']\<rparr>) []]"
  have h: "l_libs_merged (fields_of ?p) = None" "L_libs_merged (fields_of ?p) = None"
    "I_cflags_merged (fields_of ?p) = None"
    by (simp_all add: new0_fields_def)
  have k1: "keep_last_occurrence [''-la'', ''-lb'', ''-la''] = [''-lb'', ''-la'']"
    by (simp add: keep_last_occurrence_def upt_rec)
  have k2: "keep_first_occurrence [''-IA'', ''-IB'', ''-IA''] = [''-IA'', ''-IB'']"
    by (simp add: keep_first_occurrence_def upt_rec)
  show ?thesis
    using h merges_keep_occurrence [OF h, of "[]"]
    by (simp add: get_l_libs_def get_I_cflags_def new0_fields_def k1 k2)
qed

section \<open>The merged output string\<close>

text \<open>
  Claim C9, refuted as stated: the merged \<^verbatim>\<open>I_cflags\<close> of a package with the flags
  \<open>-IA -IB -IA\<close> is the string \<open>-IA -IB\<close> followed by a blank.
\<close>

theorem merged_trailing_space_counterexample:
  "get_merged (Package (new0_fields\<lparr>I_cflags := [''-IA'', ''-IB'', ''-IA'']\<rparr>) [])
     get_I_cflags = ''-IA -IB ''
   \<and> last (get_merged (Package (new0_fields\<lparr>I_cflags := [''-IA'', ''-IB'', ''-IA'']\<rparr>) [])
             get_I_cflags) = CHR '' ''"
  by (simp add: get_merged_def get_I_cflags_def new0_fields_def
      string_list_strip_duplicates_def string_list_to_string_def)

text \<open>
  Claim C9, amended: every merged output string is the concatenation of the surviving
  strings, each one followed by exactly one blank.  So two neighbours are separated by
  one blank and every non-empty result ends with one blank; the callers
  \<^verbatim>\<open>packages_get_all_libs\<close> and \<^verbatim>\<open>packages_get_all_cflags\<close> paste such strings
  together and rely on it.
\<close>

theorem merged_each_followed_by_space:
  "string_list_to_string xs = concat (map (\<lambda>a. a @ '' '') xs)
   \<and> get_merged pkg func
     = concat (map (\<lambda>a. a @ '' '')
         (string_list_strip_duplicates (recursive_fill_list pkg func [])))
   \<and> get_merged_from_back pkg func
     = concat (map (\<lambda>a. a @ '' '')
         (string_list_strip_duplicates_from_back (recursive_fill_list pkg func [])))
   \<and> get_multi_merged pkgs func
     = concat (map (\<lambda>a. a @ '' '')
         (string_list_strip_duplicates
            (fold (\<lambda>p l. recursive_fill_list p func l) pkgs [])))
   \<and> get_multi_merged_from_back pkgs func
     = concat (map (\<lambda>a. a @ '' '')
         (string_list_strip_duplicates_from_back
            (fold (\<lambda>p l. recursive_fill_list p func l) pkgs [])))"
  by (simp add: string_list_to_string_def get_merged_def get_merged_from_back_def
      get_multi_merged_def get_multi_merged_from_back_def to_string_loop_concat)

section \<open>The version comparator\<close>

lemma takeWhile_isalpha_digit: "starts_with_digit s \<Longrightarrow> takeWhile isalpha s = []"
  by (cases s) (auto simp: starts_with_digit_def isdigit_def isalpha_def)

lemma takeWhile_isdigit_other: "\<not> starts_with_digit s \<Longrightarrow> takeWhile isdigit s = []"
  by (cases s) (auto simp: starts_with_digit_def)

lemma takeWhile_isdigit_digit: "starts_with_digit s \<Longrightarrow> takeWhile isdigit s \<noteq> []"
  by (cases s) (auto simp: starts_with_digit_def)

declare rpmvercmp_loop.simps [simp del]

declare rpmvercmp_end.simps [simp del]

lemma alnum_start:
  assumes "dropWhile (\<lambda>c. \<not> isalnum c) s \<noteq> []"
  shows "\<exists>c rest. dropWhile (\<lambda>c. \<not> isalnum c) s = c # rest \<and> isalnum c"
proof -
  from assms obtain c rest where eq: "dropWhile (\<lambda>c. \<not> isalnum c) s = c # rest"
    by (cases "dropWhile (\<lambda>c. \<not> isalnum c) s") auto
  then have "isalnum c" by (simp add: dropWhile_eq_Cons_conv)
  with eq show ?thesis by blast
qed

lemma takeWhile_isalpha_letter:
  assumes "dropWhile (\<lambda>c. \<not> isalnum c) s \<noteq> []"
    and "\<not> starts_with_digit (dropWhile (\<lambda>c. \<not> isalnum c) s)"
  shows "takeWhile isalpha (dropWhile (\<lambda>c. \<not> isalnum c) s) \<noteq> []"
proof -
  from alnum_start [OF assms(1)] obtain c rest
    where eq: "dropWhile (\<lambda>c. \<not> isalnum c) s = c # rest" and "isalnum c" by blast
  with assms(2) have "isalpha c"
    by (simp add: starts_with_digit_def isalnum_def)
  with eq show ?thesis by simp
qed

lemma rpmvercmp_walk:
  "(rpmvercmp_end one two = Type_mismatch
      \<longrightarrow> rpmvercmp_loop one two = - 1 \<and> rpmvercmp_loop two one = - 1)
   \<and> (rpmvercmp_end one two = Decided
      \<longrightarrow> sgn (rpmvercmp_loop one two) = - sgn (rpmvercmp_loop two one))"
proof (induction "length one" arbitrary: one two rule: less_induct)
  case less
  define one1 where "one1 = dropWhile (\<lambda>c. \<not> isalnum c) one"
  define two1 where "two1 = dropWhile (\<lambda>c. \<not> isalnum c) two"
  show ?case
  proof (cases "one \<noteq> [] \<and> two \<noteq> []")
    case False
    then have "rpmvercmp_end one two = Decided"
      by (subst rpmvercmp_end.simps) auto
    moreover have "sgn (rpmvercmp_loop one two) = - sgn (rpmvercmp_loop two one)"
      using False by (subst (1 2) rpmvercmp_loop.simps) auto
    ultimately show ?thesis by simp
  next
    case ne: True
    show ?thesis
    proof (cases "one1 = [] \<or> two1 = []")
      case True
      then have "rpmvercmp_end one two = Rest_empty"
        using ne
        by (subst rpmvercmp_end.simps) (simp add: Let_def one1_def [symmetric] two1_def [symmetric])
      then show ?thesis by simp
    next
      case both: False
      show ?thesis
      proof (cases "starts_with_digit one1 = starts_with_digit two1")
        case False
        then have e: "rpmvercmp_end one two = Type_mismatch"
          using ne both
          by (subst rpmvercmp_end.simps) (simp add: Let_def one1_def [symmetric] two1_def [symmetric])
        have ab: "rpmvercmp_loop one two = - 1"
          using ne False
          by (subst rpmvercmp_loop.simps)
             (auto simp add: Let_def one1_def [symmetric] two1_def [symmetric]
                takeWhile_isdigit_other takeWhile_isalpha_digit)
        have ba: "rpmvercmp_loop two one = - 1"
          using ne False
          by (subst rpmvercmp_loop.simps)
             (auto simp add: Let_def one1_def [symmetric] two1_def [symmetric]
                takeWhile_isdigit_other takeWhile_isalpha_digit)
        from e ab ba show ?thesis by simp
      next
        case same: True
        define cls where "cls = (if starts_with_digit one1 then isdigit else isalpha)"
        define num1 where "num1 = (if starts_with_digit one1
            then dropWhile (\<lambda>c. c = CHR ''0'') (takeWhile cls one1) else takeWhile cls one1)"
        define num2 where "num2 = (if starts_with_digit one1
            then dropWhile (\<lambda>c. c = CHR ''0'') (takeWhile cls two1) else takeWhile cls two1)"
        have s1: "takeWhile cls one1 \<noteq> []"
          using both takeWhile_isalpha_letter [of one] takeWhile_isdigit_digit [of one1]
          by (auto simp: cls_def one1_def)
        have s2: "takeWhile cls two1 \<noteq> []"
          using both same takeWhile_isalpha_letter [of two] takeWhile_isdigit_digit [of two1]
          by (auto simp: cls_def two1_def)
        have ab: "rpmvercmp_loop one two =
            (if starts_with_digit one1 \<and> length num1 > length num2 then 1
             else if starts_with_digit one1 \<and> length num2 > length num1 then - 1
             else if strcmp num1 num2 \<noteq> 0 then strcmp num1 num2
             else rpmvercmp_loop (dropWhile cls one1) (dropWhile cls two1))"
          using ne s1 s2
          by (cases "starts_with_digit one1"; subst rpmvercmp_loop.simps)
             (simp_all add: Let_def one1_def [symmetric] two1_def [symmetric] cls_def
                num1_def num2_def)
        have ba: "rpmvercmp_loop two one =
            (if starts_with_digit one1 \<and> length num2 > length num1 then 1
             else if starts_with_digit one1 \<and> length num1 > length num2 then - 1
             else if strcmp num2 num1 \<noteq> 0 then strcmp num2 num1
             else rpmvercmp_loop (dropWhile cls two1) (dropWhile cls one1))"
          using ne s1 s2 same
          by (cases "starts_with_digit one1"; subst rpmvercmp_loop.simps)
             (simp_all add: Let_def one1_def [symmetric] two1_def [symmetric] cls_def
                num1_def num2_def)
        have e: "rpmvercmp_end one two =
            (if (starts_with_digit one1 \<and> length num1 \<noteq> length num2) \<or> strcmp num1 num2 \<noteq> 0
             then Decided else rpmvercmp_end (dropWhile cls one1) (dropWhile cls two1))"
          using ne both same
          by (cases "starts_with_digit one1"; subst rpmvercmp_end.simps)
             (simp_all add: Let_def one1_def [symmetric] two1_def [symmetric] cls_def
                num1_def num2_def)
        show ?thesis
        proof (cases "(starts_with_digit one1 \<and> length num1 \<noteq> length num2) \<or> strcmp num1 num2 \<noteq> 0")
          case True
          then have "rpmvercmp_end one two = Decided" using e by simp
          moreover have "sgn (rpmvercmp_loop one two) = - sgn (rpmvercmp_loop two one)"
            unfolding ab ba using True strcmp_swap [of num2 num1] by auto
          ultimately show ?thesis by simp
        next
          case False
          then have eq0: "strcmp num1 num2 = 0" "strcmp num2 num1 = 0"
            using strcmp_swap [of num2 num1] by simp_all
          from s1 obtain c rest where "one1 = c # rest" "cls c"
            by (cases one1) (auto split: if_splits)
          then have "length (dropWhile cls one1) < length one1"
            using length_dropWhile_le [of cls rest] by simp
          also have "length one1 \<le> length one"
            unfolding one1_def by (rule length_dropWhile_le)
          finally have shorter: "length (dropWhile cls one1) < length one" .
          have "rpmvercmp_end one two = rpmvercmp_end (dropWhile cls one1) (dropWhile cls two1)"
            using e False by simp
          moreover have "rpmvercmp_loop one two
                         = rpmvercmp_loop (dropWhile cls one1) (dropWhile cls two1)"
            unfolding ab using False eq0 by auto
          moreover have "rpmvercmp_loop two one
                         = rpmvercmp_loop (dropWhile cls two1) (dropWhile cls one1)"
            unfolding ba using False eq0 by auto
          ultimately show ?thesis
            using less.hyps [OF shorter, of "dropWhile cls two1"] by simp
        qed
      qed
    qed
  qed
qed

lemma rpmvercmp_end_same: "rpmvercmp_end a a \<noteq> Type_mismatch"
proof (induction "length a" arbitrary: a rule: less_induct)
  case less
  define a1 where "a1 = dropWhile (\<lambda>c. \<not> isalnum c) a"
  define cls where "cls = (if starts_with_digit a1 then isdigit else isalpha)"
  show ?case
  proof (cases "a \<noteq> [] \<and> a1 \<noteq> []")
    case False
    then show ?thesis
      by (subst rpmvercmp_end.simps) (auto simp: Let_def a1_def)
  next
    case True
    have s1: "takeWhile cls a1 \<noteq> []"
      using True takeWhile_isalpha_letter [of a] takeWhile_isdigit_digit [of a1]
      by (auto simp: cls_def a1_def)
    then obtain c rest where "a1 = c # rest" "cls c"
      by (cases a1) (auto split: if_splits)
    then have "length (dropWhile cls a1) < length a1"
      using length_dropWhile_le [of cls rest] by simp
    also have "length a1 \<le> length a"
      unfolding a1_def by (rule length_dropWhile_le)
    finally have shorter: "length (dropWhile cls a1) < length a" .
    have "rpmvercmp_end a a = rpmvercmp_end (dropWhile cls a1) (dropWhile cls a1)"
      using True
      by (cases "starts_with_digit a1"; subst rpmvercmp_end.simps)
         (simp_all add: Let_def a1_def [symmetric] cls_def strcmp_same)
    then show ?thesis using less.hyps [OF shorter] by simp
  qed
qed

text \<open>
  Claim C2, refuted as stated: a letter segment against a digit segment is the type
  mismatch that \<^verbatim>\<open>rpmvercmp\<close> answers with \<open>-1\<close> ("arbitrary" in the source) in both
  directions.
\<close>

theorem compare_versions_sign_counterexample:
  "\<not> (sgn (compare_versions ''a'' ''1'') = - sgn (compare_versions ''1'' ''a''))"
  by (simp add: compare_versions_def rpmvercmp_def rpmvercmp_loop.simps starts_with_digit_def
      isdigit_def isalpha_def isalnum_def)

text \<open>
  Claim C2, amended.  \<open>compare_versions a a = 0\<close> for every string.  For all strings
  \<open>a\<close> and \<open>b\<close>: when the walk over the two strings meets, behind segments that compare
  equal, a numeric segment on one side and an alphabetic one on the other, then
  \<open>compare_versions a b\<close> and \<open>compare_versions b a\<close> are both \<open>-1\<close> (the tie-break that
  the source calls arbitrary); when the walk is decided by two segments of the same type
  that differ, or by a string that is used up behind a segment, the signs of
  \<open>compare_versions a b\<close> and \<open>compare_versions b a\<close> are opposite.  Nothing is said
  about the remaining case, where one string has only separators left and the other one
  goes on.
\<close>

theorem compare_versions_sign_by_walk:
  "compare_versions a a = 0
   \<and> (rpmvercmp_end a b = Type_mismatch
        \<longrightarrow> compare_versions a b = - 1 \<and> compare_versions b a = - 1)
   \<and> (rpmvercmp_end a b = Decided
        \<longrightarrow> sgn (compare_versions a b) = - sgn (compare_versions b a))"
proof -
  have same: "compare_versions a a = 0"
    by (simp add: compare_versions_def rpmvercmp_def strcmp_same)
  show ?thesis
  proof (cases "strcmp a b = 0")
    case True
    then have "a = b" by (rule strcmp_zero_eq)
    with same rpmvercmp_end_same [of a] show ?thesis by simp
  next
    case False
    then have "strcmp b a \<noteq> 0" using strcmp_swap [of b a] by simp
    with False same show ?thesis
      using rpmvercmp_walk [of a b] by (simp add: compare_versions_def rpmvercmp_def)
  qed
qed

text \<open>
  \<open>a\<close> against \<open>1\<close> is a type mismatch; \<open>1.10\<close> against \<open>1.9\<close> is decided by the
  second segments, the longer number being the greater one.
\<close>

theorem compare_versions_sign_by_walk_witness:
  "rpmvercmp_end ''a'' ''1'' = Type_mismatch
   \<and> compare_versions ''a'' ''1'' = - 1 \<and> compare_versions ''1'' ''a'' = - 1
   \<and> rpmvercmp_end ''1.10'' ''1.9'' = Decided
   \<and> sgn (compare_versions ''1.10'' ''1.9'') = - sgn (compare_versions ''1.9'' ''1.10'')
   \<and> compare_versions ''1.10'' ''1.9'' = 1"
proof -
  have m: "rpmvercmp_end ''a'' ''1'' = Type_mismatch"
    by (simp add: rpmvercmp_end.simps starts_with_digit_def isdigit_def isalpha_def isalnum_def)
  have d: "rpmvercmp_end ''1.10'' ''1.9'' = Decided"
    by (simp add: rpmvercmp_end.simps starts_with_digit_def isdigit_def isalpha_def isalnum_def)
  have v: "compare_versions ''1.10'' ''1.9'' = 1"
    by (simp add: compare_versions_def rpmvercmp_def rpmvercmp_loop.simps starts_with_digit_def
        isdigit_def isalpha_def isalnum_def)
  from m d v compare_versions_sign_by_walk [of "''a''" "''1''"] compare_versions_sign_by_walk [of "''1.10''" "''1.9''"]
  show ?thesis by simp
qed

section \<open>The conflict check of \<^verbatim>\<open>verify_package\<close>\<close>

text \<open>
  Claim C1, evaluated where the code leaves it.  Package \<open>a\<close> (version 1.0) requires
  package \<open>b\<close> (version 1.0) and declares \<open>Conflicts: c < 2.0\<close>.  No package \<open>c\<close> is
  required, yet \<^verbatim>\<open>verify_package\<close> ends the process with the conflict message for
  the pair (\<open>b\<close>, \<open>c < 2.0\<close>): the inner loop tests the version only and never compares
  \<^verbatim>\<open>ver->name\<close> with \<^verbatim>\<open>req->key\<close>.
\<close>

theorem verify_package_conflict_ignores_name:
  "verify_package
     (Package (new0_fields\<lparr>key := Some ''a'', name := Some ''a'', version := Some ''1.0'',
                 description := Some ''d'',
                 conflicts := [\<lparr>rv_name = Some ''c'', rv_comparison = LESS_THAN,
                                rv_version = Some ''2.0'', rv_owner = Some ''a''\<rparr>]\<rparr>)
        [Package (new0_fields\<lparr>key := Some ''b'', name := Some ''b'', version := Some ''1.0'',
                    description := Some ''d''\<rparr>) []])
   = Inl (Creates_conflict (Some ''1.0'') (Some ''b'') (Some ''c'') LESS_THAN (Some ''2.0'')
            (Some ''a''))"
  by code_simp

section \<open>The chop in \<^verbatim>\<open>packages_get_var\<close>\<close>

text \<open>
  Claim C10, evaluated where the code leaves it.  With an empty package list, and with a
  package that does not define the variable, nothing is appended to the buffer, its
  length is 0, and the index of the chop is \<open>0 - 1\<close> in \<^verbatim>\<open>gsize\<close> arithmetic, that
  is \<open>2^64 - 1\<close>: a write outside the buffer.
\<close>

theorem packages_get_var_empty_chop:
  "packages_get_var globals [] varname = Inl (Out_of_bounds_write 18446744073709551615)
   \<and> packages_get_var None [Package new0_fields []] ''prefix''
     = Inl (Out_of_bounds_write 18446744073709551615)"
  by (simp add: packages_get_var_def chop_last_space_def Let_def package_get_var_def
      new0_fields_def uint_gsize_minus_one unat_gsize_minus_one)

section \<open>Scanning the search path\<close>

lemma ends_in_dotpc_append: "ends_in_dotpc (K @ ''.pc'') \<longleftrightarrow> K \<noteq> []"
  by (auto simp: ends_in_dotpc_def nth_append)

lemma ends_in_dotpc_split:
  assumes "ends_in_dotpc e"
  shows "e = take (length e - 3) e @ ''.pc'' \<and> take (length e - 3) e \<noteq> []"
proof -
  let ?n = "length e - 3"
  from assms have len: "length e > 3" and c0: "e ! ?n = CHR ''.''"
    and c1: "e ! (length e - 2) = CHR ''p''" and c2: "e ! (length e - 1) = CHR ''c''"
    by (simp_all add: ends_in_dotpc_def Let_def)
  have idx: "length e - 2 = Suc ?n" "length e - 1 = Suc (Suc ?n)"
    and lt: "?n < length e" "Suc ?n < length e" "Suc (Suc ?n) < length e"
    and fin: "Suc (Suc (Suc ?n)) = length e"
    using len by arith+
  have "drop ?n e = e ! ?n # drop (Suc ?n) e"
    using lt(1) by (rule Cons_nth_drop_Suc [symmetric])
  also have "drop (Suc ?n) e = e ! Suc ?n # drop (Suc (Suc ?n)) e"
    using lt(2) by (rule Cons_nth_drop_Suc [symmetric])
  also have "drop (Suc (Suc ?n)) e = e ! Suc (Suc ?n) # drop (Suc (Suc (Suc ?n))) e"
    using lt(3) by (rule Cons_nth_drop_Suc [symmetric])
  also have "drop (Suc (Suc (Suc ?n))) e = []"
    unfolding fin by simp
  finally have "drop ?n e = ''.pc''"
    using c0 c1 c2 unfolding idx by simp
  moreover have "e = take ?n e @ drop ?n e" by simp
  ultimately have "e = take ?n e @ ''.pc''" by simp
  moreover have "take ?n e \<noteq> []" using len by auto
  ultimately show ?thesis by blast
qed

lemma scan_entries_lookup:
  "scan_entries d n names locs K =
     (case locs K of
        Some p \<Rightarrow> Some p
      | None \<Rightarrow> if K \<noteq> [] \<and> K @ ''.pc'' \<in> set names
                then Some ((take n d @ ''/'') @ K @ ''.pc'') else None)"
proof (induction names arbitrary: locs)
  case Nil
  show ?case by (simp split: option.split)
next
  case (Cons e rest)
  show ?case
  proof (cases "ends_in_dotpc e")
    case False
    then have "K \<noteq> [] \<Longrightarrow> e \<noteq> K @ ''.pc''"
      using ends_in_dotpc_append [of K] by auto
    with False show ?thesis
      by (auto simp: Cons.IH split: option.split)
  next
    case True
    define K' where "K' = take (length e - 3) e"
    from ends_in_dotpc_split [OF True] have e: "e = K' @ ''.pc''" and ne: "K' \<noteq> []"
      by (simp_all add: K'_def)
    have inj: "e = K @ ''.pc'' \<longleftrightarrow> K = K'"
      using e by auto
    show ?thesis
    proof (cases "locs K'")
      case (Some q)
      then show ?thesis
        using True inj by (auto simp: Cons.IH K'_def [symmetric] Let_def split: option.split)
    next
      case None
      then show ?thesis
        using True inj ne e
        by (auto simp: Cons.IH K'_def [symmetric] Let_def split: option.split)
    qed
  qed
qed

lemma scan_dir_lookup:
  "scan_dir entries d locs K =
     (case locs K of
        Some p \<Rightarrow> Some p
      | None \<Rightarrow> if has_pc_file entries K d then Some (pc_file_path d K) else None)"
proof -
  define n where "n = (if length d > 0 \<and> d ! (length d - 1) = CHR ''/'' then length d - 1
                       else length d)"
  have strip: "take n d = (if d \<noteq> [] \<and> last d = CHR ''/'' then butlast d else d)"
    unfolding n_def by (auto simp: last_conv_nth butlast_conv_take)
  have "scan_dir entries d locs K
        = (case entries d of None \<Rightarrow> locs K | Some names \<Rightarrow> scan_entries d n names locs K)"
    unfolding scan_dir_def Let_def n_def by (simp split: option.split)
  also have "\<dots> = (case locs K of
        Some p \<Rightarrow> Some p
      | None \<Rightarrow> if has_pc_file entries K d then Some (pc_file_path d K) else None)"
    unfolding scan_entries_lookup has_pc_file_def pc_file_path_def strip [symmetric]
    by (simp split: option.split)
  finally show ?thesis .
qed

lemma fold_scan_dir_lookup:
  "fold (scan_dir entries) ds locs K =
     (case locs K of
        Some p \<Rightarrow> Some p
      | None \<Rightarrow> map_option (\<lambda>d. pc_file_path d K) (find (has_pc_file entries K) ds))"
  by (induction ds arbitrary: locs) (auto simp: scan_dir_lookup split: option.split)

lemma search_dirs_fold_add:
  "search_dirs (fold add_search_dir ds st) = rev ds @ search_dirs st"
  by (induction ds arbitrary: st) (simp_all add: add_search_dir_def)

lemma initted_fold_add: "initted (fold add_search_dir ds st) = initted st"
  by (induction ds arbitrary: st) (simp_all add: add_search_dir_def)

lemma package_init_locations:
  assumes "\<not> initted st"
  shows "locations (package_init entries PKGLIBDIR st) K
           = map_option (\<lambda>d. pc_file_path d K)
               (find (has_pc_file entries K) (search_dirs st @ [PKGLIBDIR]))"
proof -
  have "locations (package_init entries PKGLIBDIR st) K
        = fold (scan_dir entries) (search_dirs st @ [PKGLIBDIR]) Map.empty K"
    using assms by (simp add: package_init_def)
  then show ?thesis
    by (simp only: fold_scan_dir_lookup) simp
qed

lemma locations_after_adding:
  assumes "\<not> initted st"
  shows "locations (package_init entries PKGLIBDIR (fold add_search_dir ds st)) K
           = map_option (\<lambda>d. pc_file_path d K)
               (find (has_pc_file entries K) (rev ds @ search_dirs st @ [PKGLIBDIR]))"
  using package_init_locations [of "fold add_search_dir ds st" entries PKGLIBDIR K] assms
  by (simp add: initted_fold_add search_dirs_fold_add)

text \<open>
  Claim C3, evaluated where the code leaves it.  The directories \<open>/a\<close> and \<open>/b\<close> are
  handed to \<^verbatim>\<open>add_search_dir\<close> in this order, and both hold a file \<open>foo.pc\<close>.
  \<^verbatim>\<open>add_search_dir\<close> puts every directory at the head of \<^verbatim>\<open>search_dirs\<close> and
  \<^verbatim>\<open>package_init\<close> walks the list from the head without reversing it, so \<open>/b\<close> is
  scanned first: the location of \<open>foo\<close> is \<open>/b/foo.pc\<close>, the file of the directory
  that comes later in the search path, and \<^verbatim>\<open>get_package\<close> loads \<open>foo\<close> from that
  file.  (The parser is replaced by a function that returns a package whose description
  is the path it was asked to read.)  The lemma before says the same for any sequence of
  directories: the scan order is the reverse of the order in which they were added.
\<close>

theorem later_directory_wins:
  "locations
     (package_init
        (\<lambda>d. if d = ''/a'' \<or> d = ''/b'' then Some [''.'', ''..'', ''foo.pc''] else None)
        ''/usr/lib/pkgconfig''
        (add_search_dir ''/b''
           (add_search_dir ''/a''
              \<lparr>packages = Map.empty, locations = Map.empty, search_dirs = [],
                initted = False, disable_uninstalled = False, printed = []\<rparr>))) ''foo''
     = Some ''/b/foo.pc''
   \<and> (case get_package (\<lambda>p. True)
             (\<lambda>path st. Inr (Some (Package (new0_fields\<lparr>name := Some ''foo'',
                                   version := Some ''1'', description := Some path\<rparr>) []), st))
             (\<lambda>n. None) ''foo''
             (package_init
                (\<lambda>d. if d = ''/a'' \<or> d = ''/b'' then Some [''.'', ''..'', ''foo.pc''] else None)
                ''/usr/lib/pkgconfig''
                (add_search_dir ''/b''
                   (add_search_dir ''/a''
                      \<lparr>packages = Map.empty, locations = Map.empty, search_dirs = [],
                        initted = False, disable_uninstalled = False, printed = []\<rparr>))) of
         Inr (Some pkg, st) \<Rightarrow> description (fields_of pkg) = Some ''/b/foo.pc''
       | _ \<Rightarrow> False)"
proof -
  let ?ent = "\<lambda>d. if d = ''/a'' \<or> d = ''/b'' then Some [''.'', ''..'', ''foo.pc''] else None"
  let ?s0 = "\<lparr>packages = Map.empty, locations = Map.empty, search_dirs = [],
                initted = False, disable_uninstalled = False, printed = []\<rparr>"
  let ?s1 = "package_init ?ent ''/usr/lib/pkgconfig'' (add_search_dir ''/b'' (add_search_dir ''/a'' ?s0))"
  have loc: "locations ?s1 K
      = map_option (\<lambda>d. pc_file_path d K) (find (has_pc_file ?ent K) [''/b'', ''/a'', ''/usr/lib/pkgconfig''])" for K
    using locations_after_adding
      [where st = ?s0 and entries = ?ent and PKGLIBDIR = "''/usr/lib/pkgconfig''"
         and ds = "[''/a'', ''/b'']" and K = K]
    by simp
  have foo: "locations ?s1 ''foo'' = Some ''/b/foo.pc''"
    unfolding loc by (simp add: has_pc_file_def pc_file_path_def)
  have un: "locations ?s1 ''foo-uninstalled'' = None"
    unfolding loc by (simp add: has_pc_file_def)
  have rest: "packages ?s1 = Map.empty" "disable_uninstalled ?s1 = False"
    by (simp_all add: package_init_def add_search_dir_def)
  show ?thesis
    using foo un rest
    by (simp add: get_package_def ends_in_dotpc_def name_ends_in_uninstalled_def
        load_location_def parse_package_file_at_def verify_package_def new0_fields_def
        get_requires_def get_conflicts_def Let_def)
qed

section \<open>Looking a package up by a name that ends in \<^verbatim>\<open>.pc\<close>\<close>

text \<open>
  Claim C5, evaluated where the code leaves it.  The name \<open>foo.pc\<close> ends in \<open>.pc\<close>,
  no file of that name can be opened, and the locations table knows the key \<open>foo.pc\<close>
  (from a file \<open>foo.pc.pc\<close> that can be opened).  \<^verbatim>\<open>internal_get_package\<close> takes the
  name for the location without asking whether the file exists (the comment says "and
  exists"; \<^verbatim>\<open>file_readable\<close> is never called), so it neither tries the uninstalled
  variant nor consults the table: \<^verbatim>\<open>parse_package_file\<close> fails to open \<open>foo.pc\<close>
  and the result is \<^verbatim>\<open>NULL\<close>, with that failure as the only message.
\<close>

theorem get_package_dotpc_without_file:
  "get_package (\<lambda>p. p = ''/usr/lib/pkgconfig/foo.pc.pc'') parse_opened get_compat_package
     ''foo.pc''
     \<lparr>packages = Map.empty,
      locations = [''foo.pc'' \<mapsto> ''/usr/lib/pkgconfig/foo.pc.pc''],
      search_dirs = [], initted = True, disable_uninstalled = False, printed = []\<rparr>
   = Inr (None,
       \<lparr>packages = Map.empty,
        locations = [''foo.pc'' \<mapsto> ''/usr/lib/pkgconfig/foo.pc.pc''],
        search_dirs = [], initted = True, disable_uninstalled = False,
        printed = [Failed_to_open ''foo.pc'']\<rparr>)"
  by (simp add: get_package_def ends_in_dotpc_def load_location_def
      parse_package_file_at_def)

section \<open>Line terminators in \<^verbatim>\<open>read_one_line\<close>\<close>

text \<open>
  Claim C8, evaluated where the code leaves it.  Outside a backslash escape the
  \<^verbatim>\<open>switch\<close> has a case for \<^verbatim>\<open>'\n'\<close> only.  On the stream \<open>a \r b \n\<close> the lone
  \<^verbatim>\<open>\r\<close> neither ends the line nor stays out of the buffer: one call returns the line
  \<open>a \r b\<close>.  On \<open>a \r \n b\<close> the \<^verbatim>\<open>\r\<close> is written into the buffer and the
  \<^verbatim>\<open>\n\<close> alone ends the line.  (The comment above the function lists \<^verbatim>\<open>'\r'\<close> and
  \<^verbatim>\<open>'\r\n'\<close> as delimiters that are not written into the buffer, and the escaped
  branch does have \<^verbatim>\<open>case '\r'\<close>.)
\<close>

theorem read_one_line_carriage_return:
  "read_one_line [CHR ''a'', CHR 0x0D, CHR ''b'', CHR 0x0A]
     = (True, [CHR ''a'', CHR 0x0D, CHR ''b''], [])
   \<and> read_one_line [CHR ''a'', CHR 0x0D, CHR 0x0A, CHR ''b'']
     = (True, [CHR ''a'', CHR 0x0D], [CHR ''b''])"
  by (simp add: read_one_line_def lookahead_def)

section \<open>Unknown comparison operators in a module list\<close>

lemma parse_module_unknown:
  assumes "module_name_part m \<noteq> []" and "module_operator_part m \<noteq> []"
    and "module_operator_part m \<notin> set [''='', ''!='', ''<'', ''<='', ''>'', ''>='']"
  shows "parse_module strict own m path =
     (if strict then Inl (Unknown_comparison_operator (module_operator_part m) (module_name_part m) path)
      else Inr (\<lparr>rv_name = Some (module_name_part m), rv_comparison = ALWAYS_MATCH,
                 rv_version = None, rv_owner = own\<rparr>,
                [Unknown_comparison_operator (module_operator_part m) (module_name_part m) path]))"
  using assms
  unfolding parse_module_def module_name_part_def module_operator_part_def Let_def
  by (simp only: set_simps insert_iff empty_iff de_Morgan_disj if_False if_True simp_thms
      split: if_split)

text \<open>
  Claim C7, refuted as stated: in lax mode the list parsed from \<open>foo == 1.0, bar\<close> does
  hold an entry for \<open>foo\<close>.
\<close>

theorem unknown_operator_lax_counterexample:
  "parse_module_list
     \<lparr>parse_strict = False, define_prefix = False, prefix_variable = ''prefix'',
      global_vars = None\<rparr>
     (new0_fields\<lparr>key := Some ''a''\<rparr>) ''foo == 1.0, bar'' ''a.pc''
   = Inr ([\<lparr>rv_name = Some ''foo'', rv_comparison = ALWAYS_MATCH, rv_version = None,
             rv_owner = Some ''a''\<rparr>,
           \<lparr>rv_name = Some ''bar'', rv_comparison = ALWAYS_MATCH, rv_version = None,
             rv_owner = Some ''a''\<rparr>],
          [Unknown_comparison_operator ''=='' ''foo'' ''a.pc''])"
  by (simp add: parse_module_list_def do_parse_module_list_def split_module_list_def
      parse_module_def MODULE_SEPARATOR_def OPERATOR_CHAR_def isspace_def new0_fields_def
      Let_def)

text \<open>
  Claim C7, amended.  Let an entry of the module list have a name and an operator word
  that is none of \<open>=\<close>, \<open>!=\<close>, \<open><\<close>, \<open><=\<close>, \<open>>\<close>, \<open>>=\<close>.  Under
  \<^verbatim>\<open>parse_strict\<close> the loop ends the process with the message about the unknown
  operator.  In lax mode it prints the same message and goes on with the next entry;
  the rest of this entry (operator and version) is skipped, but the entry itself stays
  on the list, with the module's name, the comparison \<^verbatim>\<open>ALWAYS_MATCH\<close> and no
  version.
\<close>

theorem unknown_operator_entry:
  assumes "module_name_part m \<noteq> []" and "module_operator_part m \<noteq> []"
    and "module_operator_part m \<notin> set [''='', ''!='', ''<'', ''<='', ''>'', ''>='']"
  shows "parse_modules True own path (m # iter) listp out
           = Inl (Unknown_comparison_operator (module_operator_part m) (module_name_part m) path)
       \<and> parse_modules False own path (m # iter) listp out
           = parse_modules False own path iter
               (\<lparr>rv_name = Some (module_name_part m), rv_comparison = ALWAYS_MATCH,
                  rv_version = None, rv_owner = own\<rparr> # listp)
               (out @ [Unknown_comparison_operator (module_operator_part m)
                         (module_name_part m) path])"
  by (simp add: parse_module_unknown [OF assms])

theorem unknown_operator_entry_witness:
  "module_name_part ''foo == 1.0'' \<noteq> [] \<and> module_operator_part ''foo == 1.0'' \<noteq> []
   \<and> module_operator_part ''foo == 1.0'' \<notin> set [''='', ''!='', ''<'', ''<='', ''>'', ''>='']
   \<and> parse_modules True (Some ''a'') ''a.pc'' [''foo == 1.0''] [] []
       = Inl (Unknown_comparison_operator ''=='' ''foo'' ''a.pc'')
   \<and> parse_modules False (Some ''a'') ''a.pc'' [''foo == 1.0''] [] []
       = Inr ([\<lparr>rv_name = Some ''foo'', rv_comparison = ALWAYS_MATCH, rv_version = None,
                 rv_owner = Some ''a''\<rparr>],
              [Unknown_comparison_operator ''=='' ''foo'' ''a.pc''])"
proof -
  have h: "module_name_part ''foo == 1.0'' \<noteq> []" "module_operator_part ''foo == 1.0'' \<noteq> []"
    "module_operator_part ''foo == 1.0'' \<notin> set [''='', ''!='', ''<'', ''<='', ''>'', ''>='']"
    by (simp_all add: module_name_part_def module_operator_part_def isspace_def)
  have v: "module_name_part ''foo == 1.0'' = ''foo''" "module_operator_part ''foo == 1.0'' = ''==''"
    by (simp_all add: module_name_part_def module_operator_part_def isspace_def)
  show ?thesis
    using h unknown_operator_entry [OF h, of "Some ''a''" "''a.pc''" "[]" "[]" "[]"]
    unfolding v by simp
qed

section \<open>Fields that occur twice in a descriptor\<close>

text \<open>
  Claim C6, evaluated where the code leaves it.  The descriptor has two \<open>Requires\<close>,
  two \<open>Conflicts\<close> and two \<open>Libs\<close> lines.  Whether \<^verbatim>\<open>parse_strict\<close> is set or
  not, \<^verbatim>\<open>parse_package_file\<close> neither ends the process nor prints anything, and the
  entries of the second line follow those of the first in the parsed lists:
  \<^verbatim>\<open>parse_deps\<close> and \<^verbatim>\<open>parse_libs\<close> have no test for a field seen before, unlike
  \<^verbatim>\<open>parse_name\<close>, \<^verbatim>\<open>parse_version\<close>, \<^verbatim>\<open>parse_description\<close>, \<^verbatim>\<open>parse_cflags\<close>
  and \<^verbatim>\<open>parse_url\<close>.  (\<^verbatim>\<open>g_shell_parse_argv\<close> is taken to split \<open>-la\<close> and \<open>-lb\<close>
  into themselves.)
\<close>

theorem duplicate_requires_conflicts_libs_accepted:
  "(case parse_package_file
           (lib\<lparr>g_shell_parse_argv := [''-la'' \<mapsto> [''-la''], ''-lb'' \<mapsto> [''-lb'']]\<rparr>)
           \<lparr>parse_strict = strict, define_prefix = dp, prefix_variable = ''prefix'',
            global_vars = None\<rparr>
           [''/p/a.pc'' \<mapsto>
              ''Requires: x'' @ [CHR 0x0A] @ ''Requires: y >= 2'' @ [CHR 0x0A]
              @ ''Conflicts: u'' @ [CHR 0x0A] @ ''Conflicts: v'' @ [CHR 0x0A]
              @ ''Libs: -la'' @ [CHR 0x0A] @ ''Libs: -lb'' @ [CHR 0x0A]]
           (Some ''a'') ''/p/a.pc'' of
      Inr (Some pf, out) \<Rightarrow>
        map rv_name (requires_entries pf) = [Some ''x'', Some ''y'']
        \<and> map rv_name (conflicts pf) = [Some ''u'', Some ''v'']
        \<and> map arg (libs pf) = [''-la'', ''-lb'']
        \<and> out = []
    | _ \<Rightarrow> False)"
  by (simp add: parse_package_file_def read_one_line_def lookahead_def parse_line_def
      trim_string_def parse_keyword_def parse_deps_def parse_libs_def trim_and_sub_def
      do_parse_module_list_def split_module_list_def parse_module_def MODULE_SEPARATOR_def
      OPERATOR_CHAR_def isspace_def tag_char_def new0_fields_def Let_def package_get_var_def
      needs_backslash_def signed_char_def c_string_def)

end
